theory Spec2Isabelle
  imports Complex_Main "HOL-Library.AList"
begin

section \<open>Floating-point values\<close>

text \<open>
  The series of \<^verbatim>\<open>trading_environment.py\<close> hold IEEE doubles. A double is modelled
  as a finite real, one of the two infinities, or NaN. Arithmetic follows IEEE 754 on
  the special values: NaN is absorbing, \<open>inf - inf\<close>, \<open>0 * inf\<close>, \<open>0 / 0\<close> and
  \<open>inf / inf\<close> are NaN, and a nonzero finite value divided by zero is an infinity
  (numpy does not raise). Elementwise arithmetic on finite values is exact. Rounding to
  double precision is modelled in the reductions \<open>sum\<close>, \<open>mean\<close> and \<open>std\<close> of the
  performance summary, whose result is tested against zero. The exponent range
  (overflow, underflow) and the sign of zero are not modelled.
\<close>

datatype fval = Fin real | PInf | NInf | NaN

fun fneg :: "fval \<Rightarrow> fval" where
  "fneg (Fin a) = Fin (- a)"
| "fneg PInf = NInf"
| "fneg NInf = PInf"
| "fneg NaN = NaN"

fun fabs :: "fval \<Rightarrow> fval" where
  "fabs (Fin a) = Fin \<bar>a\<bar>"
| "fabs PInf = PInf"
| "fabs NInf = PInf"
| "fabs NaN = NaN"

fun fadd :: "fval \<Rightarrow> fval \<Rightarrow> fval" where
  "fadd (Fin a) (Fin b) = Fin (a + b)"
| "fadd (Fin a) PInf = PInf"
| "fadd (Fin a) NInf = NInf"
| "fadd PInf (Fin b) = PInf"
| "fadd PInf PInf = PInf"
| "fadd PInf NInf = NaN"
| "fadd NInf (Fin b) = NInf"
| "fadd NInf NInf = NInf"
| "fadd NInf PInf = NaN"
| "fadd NaN y = NaN"
| "fadd x NaN = NaN"

definition fsub :: "fval \<Rightarrow> fval \<Rightarrow> fval" where
  "fsub x y = fadd x (fneg y)"

definition inf_signed :: "bool \<Rightarrow> fval" where
  "inf_signed positive = (if positive then PInf else NInf)"

fun fmul :: "fval \<Rightarrow> fval \<Rightarrow> fval" where
  "fmul (Fin a) (Fin b) = Fin (a * b)"
| "fmul (Fin a) PInf = (if a = 0 then NaN else inf_signed (0 < a))"
| "fmul (Fin a) NInf = (if a = 0 then NaN else inf_signed (a < 0))"
| "fmul PInf (Fin b) = (if b = 0 then NaN else inf_signed (0 < b))"
| "fmul NInf (Fin b) = (if b = 0 then NaN else inf_signed (b < 0))"
| "fmul PInf PInf = PInf"
| "fmul PInf NInf = NInf"
| "fmul NInf PInf = NInf"
| "fmul NInf NInf = PInf"
| "fmul NaN y = NaN"
| "fmul x NaN = NaN"

fun fdiv :: "fval \<Rightarrow> fval \<Rightarrow> fval" where
  "fdiv (Fin a) (Fin b) =
     (if b = 0 then (if a = 0 then NaN else inf_signed (0 < a)) else Fin (a / b))"
| "fdiv (Fin a) PInf = Fin 0"
| "fdiv (Fin a) NInf = Fin 0"
| "fdiv PInf (Fin b) = inf_signed (0 \<le> b)"
| "fdiv NInf (Fin b) = inf_signed (b < 0)"
| "fdiv PInf PInf = NaN"
| "fdiv PInf NInf = NaN"
| "fdiv NInf PInf = NaN"
| "fdiv NInf NInf = NaN"
| "fdiv NaN y = NaN"
| "fdiv x NaN = NaN"

fun fsqrt :: "fval \<Rightarrow> fval" where
  "fsqrt (Fin a) = (if a < 0 then NaN else Fin (sqrt a))"
| "fsqrt PInf = PInf"
| "fsqrt NInf = NaN"
| "fsqrt NaN = NaN"

text \<open>Rounding to the nearest integer, ties to even, as IEEE 754 and Python's \<open>round\<close> do.\<close>

definition round_half_even :: "real \<Rightarrow> int" where
  "round_half_even r =
     (let f = \<lfloor>r\<rfloor>; d = r - of_int f
      in if d < 1 / 2 then f else if 1 / 2 < d then f + 1
         else if even f then f else f + 1)"

definition dbl :: "real \<Rightarrow> real" where
  \<comment> \<open>the nearest number with a 53-bit significand, ties to even\<close>
  "dbl x =
     (if x = 0 then 0
      else let u = 2 powi (\<lfloor>log 2 \<bar>x\<bar>\<rfloor> - 52)
           in of_int (round_half_even (x / u)) * u)"

definition rnd :: "fval \<Rightarrow> fval" where
  "rnd v = (case v of Fin r \<Rightarrow> Fin (dbl r) | _ \<Rightarrow> v)"

text \<open>Comparisons: every comparison with NaN is false.\<close>

fun flt :: "fval \<Rightarrow> fval \<Rightarrow> bool" where
  "flt (Fin a) (Fin b) = (a < b)"
| "flt (Fin a) PInf = True"
| "flt (Fin a) NInf = False"
| "flt PInf y = False"
| "flt NInf (Fin b) = True"
| "flt NInf PInf = True"
| "flt NInf NInf = False"
| "flt NaN y = False"
| "flt x NaN = False"

definition fgt :: "fval \<Rightarrow> fval \<Rightarrow> bool" where
  "fgt x y = flt y x"

definition isnan :: "fval \<Rightarrow> bool" where
  "isnan x = (x = NaN)"

fun isfinite :: "fval \<Rightarrow> bool" where
  "isfinite (Fin a) = True"
| "isfinite x = False"

text \<open>Truth value of a float in a Python condition: only zero is false; NaN is true.\<close>

definition truthy :: "fval \<Rightarrow> bool" where
  "truthy x = (x \<noteq> Fin 0)"

section \<open>Series\<close>

text \<open>
  A pandas Series is the list of its values in index order. Two series combined
  elementwise share the index of the data frame they come from, so elementwise
  operations pair the values by position.
\<close>

type_synonym series = "fval list"

definition shift1 :: "series \<Rightarrow> series" where
  \<comment> \<open>\<open>s.shift(1)\<close>: every value moves one period later, the first slot is NaN.\<close>
  "shift1 xs = (case xs of [] \<Rightarrow> [] | _ # _ \<Rightarrow> NaN # butlast xs)"

definition fillna0 :: "fval \<Rightarrow> fval" where
  "fillna0 x = (if x = NaN then Fin 0 else x)"

definition fillna :: "series \<Rightarrow> series" where
  \<comment> \<open>\<open>s.fillna(0)\<close>\<close>
  "fillna xs = map fillna0 xs"

definition dropna :: "series \<Rightarrow> series" where
  \<comment> \<open>\<open>s.dropna()\<close>\<close>
  "dropna xs = filter (\<lambda>x. x \<noteq> NaN) xs"

fun ffill_from :: "fval \<Rightarrow> series \<Rightarrow> series" where
  "ffill_from prev [] = []"
| "ffill_from prev (x # xs) =
     (if x = NaN then prev # ffill_from prev xs else x # ffill_from x xs)"

definition ffill :: "series \<Rightarrow> series" where
  \<comment> \<open>forward fill: a missing value takes the last value seen before it\<close>
  "ffill xs = ffill_from NaN xs"

definition pct_change :: "series \<Rightarrow> series" where
  \<comment> \<open>\<open>s.pct_change()\<close>: pandas forward-fills, then computes \<open>s / s.shift(1) - 1\<close>.\<close>
  "pct_change xs =
     (let d = ffill xs in map2 (\<lambda>p q. fsub (fdiv p q) (Fin 1)) d (shift1 d))"

definition diff :: "series \<Rightarrow> series" where
  \<comment> \<open>\<open>s.diff()\<close> is \<open>s - s.shift(1)\<close>\<close>
  "diff xs = map2 fsub xs (shift1 xs)"

fun cumprod_from :: "fval \<Rightarrow> series \<Rightarrow> series" where
  "cumprod_from acc [] = []"
| "cumprod_from acc (x # xs) =
     (if x = NaN then NaN # cumprod_from acc xs
      else fmul acc x # cumprod_from (fmul acc x) xs)"

definition cumprod :: "series \<Rightarrow> series" where
  \<comment> \<open>\<open>s.cumprod()\<close> skips NaN: the slot is NaN and the running product is unchanged.\<close>
  "cumprod xs = cumprod_from (Fin 1) xs"

section \<open>TradingStrategy.backtest\<close>

record backtest_result =
  positions :: series
  returns :: series
  equity_curve :: series

definition lagged_position :: "series \<Rightarrow> series" where
  \<comment> \<open>\<open>pos = sig.shift(1).fillna(0)\<close>\<close>
  "lagged_position sig = fillna (shift1 sig)"

definition price_return :: "series \<Rightarrow> series" where
  \<comment> \<open>\<open>ret = price.pct_change().fillna(0)\<close>\<close>
  "price_return price = fillna (pct_change price)"

definition strategy_return :: "series \<Rightarrow> series \<Rightarrow> real \<Rightarrow> series" where
  \<comment> \<open>\<open>strat_ret = pos * ret - sig.diff().abs().fillna(0) * transaction_cost\<close>\<close>
  "strategy_return price sig transaction_cost =
     map2 fsub
       (map2 fmul (lagged_position sig) (price_return price))
       (map (\<lambda>d. fmul d (Fin transaction_cost)) (fillna (map fabs (diff sig))))"

definition equity_of :: "real \<Rightarrow> series \<Rightarrow> series" where
  \<comment> \<open>\<open>equity = initial_capital * (1 + strat_ret).cumprod()\<close>\<close>
  "equity_of initial_capital strat_ret =
     map (fmul (Fin initial_capital)) (cumprod (map (fadd (Fin 1)) strat_ret))"

definition backtest :: "series \<Rightarrow> series \<Rightarrow> real \<Rightarrow> real \<Rightarrow> backtest_result" where
  \<comment> \<open>The price column and the generated signal are the two series; the fields are
      the attributes the method stores, \<open>equity_curve\<close> is also the returned value.\<close>
  "backtest price sig initial_capital transaction_cost =
     (let strat_ret = strategy_return price sig transaction_cost;
          equity = equity_of initial_capital strat_ret
      in \<lparr> positions = sig, returns = strat_ret, equity_curve = equity \<rparr>)"

section \<open>Exceptions\<close>

text \<open>
  A Python exception is its class and its message; a function that may raise returns
  \<open>exn + 'a\<close>, \<open>Inl\<close> being the raised exception. Only subclasses of
  \<open>Exception\<close> are modelled.
\<close>

datatype exn_class = KeyError | IndexError | ValueError | TypeError | OverflowError | OtherException

datatype exn = Exn exn_class string

fun str_of_exn :: "exn \<Rightarrow> string" where
  "str_of_exn (Exn c msg) = msg"

definition ebind :: "exn + 'a \<Rightarrow> ('a \<Rightarrow> exn + 'b) \<Rightarrow> exn + 'b" where
  "ebind m f = (case m of Inl e \<Rightarrow> Inl e | Inr v \<Rightarrow> f v)"

section \<open>PerformanceAnalyzer\<close>

definition rsum :: "series \<Rightarrow> fval" where
  \<comment> \<open>the sum of an array: left to right from 0, every partial sum rounded; NaN and
      the infinities propagate (numpy adds in this order below eight entries)\<close>
  "rsum xs = foldl (\<lambda>acc x. rnd (fadd acc x)) (Fin 0) xs"

definition fsum :: "series \<Rightarrow> fval" where
  \<comment> \<open>\<open>s.sum()\<close>, NaN skipped; the empty sum is 0\<close>
  "fsum xs = rsum (dropna xs)"

definition mean :: "series \<Rightarrow> fval" where
  \<comment> \<open>\<open>s.mean()\<close>, NaN skipped; NaN when nothing is left\<close>
  "mean xs =
     (let v = dropna xs
      in if v = [] then NaN else rnd (fdiv (rsum v) (Fin (real (length v)))))"

definition std :: "series \<Rightarrow> fval" where
  \<comment> \<open>\<open>s.std()\<close>: sample standard deviation (\<open>ddof = 1\<close>), NaN entries skipped, NaN
      with fewer than two observations. As pandas computes it, in two passes:
      \<open>avg = sum / count\<close>, \<open>sqr = (avg - values) ** 2\<close>,
      \<open>sqrt(sqr.sum() / (count - 1))\<close>, every operation rounded\<close>
  "std xs =
     (let v = dropna xs; n = length v
      in if n \<le> 1 then NaN
         else
           let avg = rnd (fdiv (rsum v) (Fin (real n)));
               sqr = map (\<lambda>x. let dev = rnd (fsub avg x) in rnd (fmul dev dev)) v
           in rnd (fsqrt (rnd (fdiv (rsum sqr) (Fin (real (n - 1)))))))"

definition fmax :: "fval \<Rightarrow> fval \<Rightarrow> fval" where
  "fmax m x = (if flt m x then x else m)"

fun cummax_from :: "fval \<Rightarrow> series \<Rightarrow> series" where
  "cummax_from m [] = []"
| "cummax_from m (x # xs) =
     (if x = NaN then NaN # cummax_from m xs
      else fmax m x # cummax_from (fmax m x) xs)"

definition cummax :: "series \<Rightarrow> series" where
  \<comment> \<open>\<open>s.cummax()\<close>: running maximum, NaN slots stay NaN and are skipped\<close>
  "cummax xs = cummax_from NInf xs"

definition series_min :: "series \<Rightarrow> fval" where
  \<comment> \<open>\<open>s.min()\<close>, NaN skipped; NaN when nothing is left\<close>
  "series_min xs =
     (case dropna xs of
        [] \<Rightarrow> NaN
      | y # ys \<Rightarrow> foldl (\<lambda>m x. if flt x m then x else m) y ys)"

definition gains :: "series \<Rightarrow> series" where
  \<comment> \<open>\<open>returns[returns > 0]\<close>\<close>
  "gains rs = filter (\<lambda>x. fgt x (Fin 0)) rs"

definition losses :: "series \<Rightarrow> series" where
  \<comment> \<open>\<open>returns[returns < 0]\<close>\<close>
  "losses rs = filter (\<lambda>x. flt x (Fin 0)) rs"

definition fraction_positive :: "series \<Rightarrow> fval" where
  \<comment> \<open>\<open>(returns > 0).mean()\<close>: the mean of a boolean series\<close>
  "fraction_positive rs =
     (if rs = [] then NaN else Fin (real (length (gains rs)) / real (length rs)))"

definition annual_power :: "fval \<Rightarrow> nat \<Rightarrow> fval" where
  \<comment> \<open>\<open>base ** (252 / days)\<close> for \<open>days > 0\<close>: the exponent is positive, and an
      integer exactly when \<open>days\<close> divides 252; a negative base with a fractional
      exponent gives NaN\<close>
  "annual_power base days =
     (case base of
        Fin a \<Rightarrow>
          if 0 \<le> a then Fin (a powr (252 / real days))
          else if days dvd 252 then Fin (a ^ (252 div days))
          else NaN
      | PInf \<Rightarrow> PInf
      | NInf \<Rightarrow> if days dvd 252 \<and> odd (252 div days) then NInf else PInf
      | NaN \<Rightarrow> NaN)"

definition sqrt_252 :: fval where
  "sqrt_252 = Fin (sqrt 252)"

record performance_analyzer =
  pa_equity :: series
  pa_returns :: series

definition PerformanceAnalyzer :: "series \<Rightarrow> series \<Rightarrow> performance_analyzer" where
  \<comment> \<open>\<open>self.equity, self.returns = equity, returns.dropna()\<close>\<close>
  "PerformanceAnalyzer equity rets = \<lparr> pa_equity = equity, pa_returns = dropna rets \<rparr>"

record perf_summary =
  total_return :: fval
  ann_return :: fval
  ann_vol :: fval
  sharpe :: fval
  max_drawdown :: fval
  win_rate :: fval
  profit_factor :: fval
  expectancy :: fval

definition sharpe_of :: "series \<Rightarrow> fval" where
  \<comment> \<open>\<open>mean/std*sqrt(252) if std else nan\<close>\<close>
  "sharpe_of rs =
     (if truthy (std rs) then fmul (fdiv (mean rs) (std rs)) sqrt_252 else NaN)"

definition ann_return_of :: "fval \<Rightarrow> series \<Rightarrow> fval" where
  \<comment> \<open>\<open>(1 + tot)**(252/days) - 1 if days else nan\<close>\<close>
  "ann_return_of tot rs =
     (let days = length rs
      in if days \<noteq> 0 then fsub (annual_power (fadd (Fin 1) tot) days) (Fin 1) else NaN)"

definition max_drawdown_of :: "series \<Rightarrow> fval" where
  \<comment> \<open>\<open>((equity - equity.cummax()) / equity.cummax()).min()\<close>\<close>
  "max_drawdown_of eq =
     series_min (map2 fdiv (map2 fsub eq (cummax eq)) (cummax eq))"

definition profit_factor_of :: "series \<Rightarrow> fval" where
  "profit_factor_of rs =
     (if losses rs \<noteq> [] then fdiv (fsum (gains rs)) (fneg (fsum (losses rs))) else NaN)"

definition expectancy_of :: "series \<Rightarrow> fval" where
  "expectancy_of rs =
     (let wr = fraction_positive rs
      in fsub (fmul wr (if gains rs \<noteq> [] then mean (gains rs) else Fin 0))
              (fmul (fsub (Fin 1) wr)
                    (if losses rs \<noteq> [] then fneg (mean (losses rs)) else Fin 0)))"

definition summary :: "performance_analyzer \<Rightarrow> exn + perf_summary" where
  \<comment> \<open>\<open>equity.iloc[-1]\<close> and \<open>equity.iloc[0]\<close> raise IndexError on an empty series;
      nothing else in the method raises\<close>
  "summary pa =
     (let eq = pa_equity pa; rs = pa_returns pa
      in if eq = [] then Inl (Exn IndexError ''single positional indexer is out-of-bounds'')
         else
           let tot = fsub (fdiv (last eq) (hd eq)) (Fin 1)
           in Inr \<lparr> total_return = tot,
                    ann_return = ann_return_of tot rs,
                    ann_vol = fmul (std rs) sqrt_252,
                    sharpe = sharpe_of rs,
                    max_drawdown = max_drawdown_of eq,
                    win_rate = fraction_positive rs,
                    profit_factor = profit_factor_of rs,
                    expectancy = expectancy_of rs \<rparr>)"

definition summary_get :: "perf_summary \<Rightarrow> string \<Rightarrow> exn + fval" where
  \<comment> \<open>\<open>summary[metric]\<close>: KeyError for a name that is not one of the eight labels\<close>
  "summary_get s metric =
     (if metric = ''Total Return'' then Inr (total_return s)
      else if metric = ''Ann. Return'' then Inr (ann_return s)
      else if metric = ''Ann. Vol'' then Inr (ann_vol s)
      else if metric = ''Sharpe'' then Inr (sharpe s)
      else if metric = ''Max Drawdown'' then Inr (max_drawdown s)
      else if metric = ''Win Rate'' then Inr (win_rate s)
      else if metric = ''Profit Factor'' then Inr (profit_factor s)
      else if metric = ''Expectancy'' then Inr (expectancy s)
      else Inl (Exn KeyError metric))"

section \<open>Python values and the parameter configuration\<close>

text \<open>
  Parameter values are Python objects: native ints, floats, bools, strings and None,
  and the numpy scalars that \<open>np.linspace\<close> and a data frame hand out. A dict is
  an association list in insertion order; \<open>AList.update\<close> is item assignment.
\<close>

datatype pyval =
    PInt int | PFloat fval | PBool bool | PStr string | PNone
  | NpInt int | NpFloat fval | NpBool bool

type_synonym params = "(string \<times> pyval) list"

fun is_number :: "pyval \<Rightarrow> bool" where
  \<comment> \<open>\<open>isinstance(v, (int, float))\<close>: bool is a subclass of int, np.float64 of float\<close>
  "is_number (PInt i) = True"
| "is_number (PFloat f) = True"
| "is_number (PBool b) = True"
| "is_number (NpFloat f) = True"
| "is_number v = False"

fun is_int :: "pyval \<Rightarrow> bool" where
  \<comment> \<open>\<open>isinstance(v, int)\<close>\<close>
  "is_int (PInt i) = True"
| "is_int (PBool b) = True"
| "is_int v = False"

fun num_val :: "pyval \<Rightarrow> fval" where
  \<comment> \<open>the numeric value a number is compared by; only applied to numbers\<close>
  "num_val (PInt i) = Fin (of_int i)"
| "num_val (PFloat f) = f"
| "num_val (PBool b) = Fin (if b then 1 else 0)"
| "num_val (NpInt i) = Fin (of_int i)"
| "num_val (NpFloat f) = f"
| "num_val (NpBool b) = Fin (if b then 1 else 0)"
| "num_val v = NaN"

definition py_min :: "pyval list \<Rightarrow> exn + pyval" where
  \<comment> \<open>\<open>min(vals)\<close>: the first minimal element; ValueError on an empty list\<close>
  "py_min vals =
     (case vals of
        [] \<Rightarrow> Inl (Exn ValueError ''min() arg is an empty sequence'')
      | v # vs \<Rightarrow> Inr (foldl (\<lambda>best x. if flt (num_val x) (num_val best) then x else best) v vs))"

definition py_max :: "pyval list \<Rightarrow> exn + pyval" where
  \<comment> \<open>\<open>max(vals)\<close>: the first maximal element; ValueError on an empty list\<close>
  "py_max vals =
     (case vals of
        [] \<Rightarrow> Inl (Exn ValueError ''max() arg is an empty sequence'')
      | v # vs \<Rightarrow> Inr (foldl (\<lambda>best x. if fgt (num_val x) (num_val best) then x else best) v vs))"

definition py_round :: "fval \<Rightarrow> exn + int" where
  \<comment> \<open>\<open>int(round(x))\<close>: nearest integer, ties to even; an infinity or NaN raises\<close>
  "py_round x =
     (case x of
        Fin r \<Rightarrow> Inr (round_half_even r)
      | NaN \<Rightarrow> Inl (Exn ValueError ''cannot convert float NaN to integer'')
      | _ \<Rightarrow> Inl (Exn OverflowError ''cannot convert float infinity to integer''))"

datatype num_type = IsFloat | IsOther

text \<open>
  One entry of \<open>param_config\<close>: either a \<open>choices\<close> list, or \<open>type\<close> and
  \<open>bounds\<close> with the optional \<open>step\<close> and \<open>n\<close>. The type of a real range is
  \<open>float\<close> or some other object that is not \<open>int\<close>.
\<close>

datatype param_spec =
    Choices "pyval list"
  | IntRange int int "int option"
  | RealRange num_type real real "nat option" "real option"

type_synonym param_config = "(string \<times> param_spec) list"
type_synonym grid = "(string \<times> pyval list) list"

definition py_range :: "int \<Rightarrow> int \<Rightarrow> int \<Rightarrow> exn + int list" where
  \<comment> \<open>\<open>list(range(start, stop, step))\<close>\<close>
  "py_range start stop step =
     (if step = 0 then Inl (Exn ValueError ''range() arg 3 must not be zero'')
      else
        let n = (if 0 < step
                 then (if start < stop then (stop - start - 1) div step + 1 else 0)
                 else (if stop < start then (start - stop - 1) div (- step) + 1 else 0))
        in Inr (map (\<lambda>i. start + int i * step) [0..<nat n]))"

definition linspace :: "real \<Rightarrow> real \<Rightarrow> nat \<Rightarrow> real list" where
  \<comment> \<open>\<open>np.linspace(low, high, n)\<close>: \<open>n\<close> evenly spaced points, both ends included\<close>
  "linspace low high n =
     (if n = 1 then [low]
      else map (\<lambda>i. low + real i * ((high - low) / real (n - 1))) [0..<n])"

fun grid_values :: "param_spec \<Rightarrow> exn + pyval list" where
  "grid_values (Choices cs) = Inr cs"
| "grid_values (IntRange low high step) =
     ebind (py_range low (high + 1) (case step of None \<Rightarrow> 1 | Some s \<Rightarrow> s))
       (\<lambda>vs. Inr (map PInt vs))"
| "grid_values (RealRange ty low high n step) =
     Inr (map (\<lambda>r. NpFloat (Fin r)) (linspace low high (case n of None \<Rightarrow> 10 | Some k \<Rightarrow> k)))"

fun param_grid :: "param_config \<Rightarrow> exn + grid" where
  \<comment> \<open>\<open>Optimizer.__init__\<close>: one list of grid values per configured parameter\<close>
  "param_grid [] = Inr []"
| "param_grid ((name, spec) # rest) =
     ebind (grid_values spec) (\<lambda>vals.
     ebind (param_grid rest) (\<lambda>g. Inr ((name, vals) # g)))"

section \<open>Strategies and the evaluation of one candidate\<close>

text \<open>
  A data frame is its columns. A strategy class is its constructor, which may raise; a
  strategy instance has its price column and its \<open>generate_signals\<close>, which may raise
  and returns a series on the index of the data.
\<close>

type_synonym data_frame = "string \<Rightarrow> series option"

record strategy =
  price_col :: string
  generate_signals :: "data_frame \<Rightarrow> exn + series"

type_synonym strategy_cls = "params \<Rightarrow> exn + strategy"

definition run_backtest :: "strategy \<Rightarrow> data_frame \<Rightarrow> exn + backtest_result" where
  \<comment> \<open>\<open>strat.backtest(data)\<close> with the default capital 10000 and cost 0\<close>
  "run_backtest strat data =
     (case data (price_col strat) of
        None \<Rightarrow> Inl (Exn KeyError (price_col strat))
      | Some price \<Rightarrow>
          ebind (generate_signals strat data) (\<lambda>sig. Inr (backtest price sig 10000 0)))"

definition evaluate :: "strategy_cls \<Rightarrow> data_frame \<Rightarrow> string \<Rightarrow> params \<Rightarrow> exn + fval" where
  \<comment> \<open>instantiate, backtest, summarise, read the metric\<close>
  "evaluate cls data metric ps =
     ebind (cls ps) (\<lambda>strat.
     ebind (run_backtest strat data) (\<lambda>r.
     ebind (summary (PerformanceAnalyzer (equity_curve r) (returns r))) (\<lambda>s.
     summary_get s metric)))"

section \<open>Optimizer.optimize\_bayesian: the objective\<close>

record trial =
  suggest_categorical :: "string \<Rightarrow> pyval list \<Rightarrow> exn + pyval"
  suggest_int :: "string \<Rightarrow> int \<Rightarrow> int \<Rightarrow> int \<Rightarrow> exn + pyval"
  suggest_float :: "string \<Rightarrow> real \<Rightarrow> real \<Rightarrow> real option \<Rightarrow> exn + pyval"
  user_attrs :: "(string \<times> string) list"

fun suggest :: "trial \<Rightarrow> string \<Rightarrow> param_spec \<Rightarrow> exn + pyval" where
  "suggest tr name (Choices cs) = suggest_categorical tr name cs"
| "suggest tr name (IntRange lo hi step) =
     suggest_int tr name lo hi (case step of None \<Rightarrow> 1 | Some s \<Rightarrow> s)"
| "suggest tr name (RealRange IsFloat lo hi n step) =
     (case step of
        None \<Rightarrow> suggest_float tr name lo hi None
      | Some s \<Rightarrow> if s \<noteq> 0 then suggest_float tr name lo hi (Some s)
                  else suggest_float tr name lo hi None)"
| "suggest tr name (RealRange IsOther lo hi n step) =
     Inl (Exn TypeError ''Unsupported or missing param_config'')"

fun sample_params :: "trial \<Rightarrow> param_config \<Rightarrow> exn + params" where
  "sample_params tr [] = Inr []"
| "sample_params tr ((name, cfg) # rest) =
     ebind (suggest tr name cfg) (\<lambda>v.
     ebind (sample_params tr rest) (\<lambda>ps. Inr ((name, v) # ps)))"

record trial_outcome =
  score :: fval
  attrs :: "(string \<times> string) list"

definition objective ::
  "strategy_cls \<Rightarrow> param_config \<Rightarrow> data_frame \<Rightarrow> string \<Rightarrow> trial \<Rightarrow> exn + trial_outcome" where
  \<comment> \<open>the value returned to the study and the user attributes of the trial afterwards;
      \<open>sample_params\<close> runs before the \<open>try\<close>\<close>
  "objective cls cfg data metric tr =
     (case sample_params tr cfg of
        Inl e \<Rightarrow> Inl e
      | Inr ps \<Rightarrow>
          (case evaluate cls data metric ps of
             Inr sc \<Rightarrow>
               Inr \<lparr> score = (if \<not> isfinite sc then NInf else sc), attrs = user_attrs tr \<rparr>
           | Inl e \<Rightarrow>
               Inr \<lparr> score = NInf,
                     attrs = AList.update ''error'' (str_of_exn e) (user_attrs tr) \<rparr>))"

section \<open>Optimizer.optimize\_de: encoding and objective\<close>

record de_encoding =
  keys :: "string list"
  bounds :: "(pyval \<times> pyval) list"
  int_flags :: "bool list"
  cat_map :: "(string \<times> pyval list) list"

definition empty_encoding :: de_encoding where
  "empty_encoding = \<lparr> keys = [], bounds = [], int_flags = [], cat_map = [] \<rparr>"

fun de_encode :: "grid \<Rightarrow> de_encoding \<Rightarrow> exn + de_encoding" where
  \<comment> \<open>the loop over \<open>self.param_grid.items()\<close>\<close>
  "de_encode [] enc = Inr enc"
| "de_encode ((k, vals) # rest) enc =
     (if list_all is_number vals then
        ebind (py_min vals) (\<lambda>low.
        ebind (py_max vals) (\<lambda>high.
        de_encode rest
          (enc \<lparr> keys := keys enc @ [k],
                 bounds := bounds enc @ [(low, high)],
                 int_flags := int_flags enc @ [list_all is_int vals] \<rparr>)))
      else
        de_encode rest
          (enc \<lparr> cat_map := AList.update k vals (cat_map enc),
                 keys := keys enc @ [k],
                 bounds := bounds enc @ [(PInt 0, PInt (int (length vals) - 1))],
                 int_flags := int_flags enc @ [True] \<rparr>))"

definition decode_value ::
  "(string \<times> pyval list) list \<Rightarrow> fval \<Rightarrow> string \<Rightarrow> bool \<Rightarrow> exn + pyval" where
  "decode_value cm xi k is_int_flag =
     (case map_of cm k of
        Some choices \<Rightarrow>
          ebind (py_round xi) (\<lambda>i.
            let idx = max 0 (min i (int (length choices) - 1))
            in if nat idx < length choices then Inr (choices ! nat idx)
               else Inl (Exn IndexError ''list index out of range''))
      | None \<Rightarrow>
          if is_int_flag then ebind (py_round xi) (\<lambda>i. Inr (PInt i))
          else Inr (PFloat xi))"

fun decode ::
  "(string \<times> pyval list) list \<Rightarrow> (fval \<times> string \<times> bool) list \<Rightarrow> params \<Rightarrow> exn + params" where
  \<comment> \<open>the loop over \<open>zip(x, keys, int_flags)\<close> filling \<open>kwargs\<close>\<close>
  "decode cm [] kwargs = Inr kwargs"
| "decode cm ((xi, k, is_int_flag) # rest) kwargs =
     ebind (decode_value cm xi k is_int_flag) (\<lambda>v.
     decode cm rest (AList.update k v kwargs))"

definition penalty :: fval where
  "penalty = Fin 1000000"

definition func ::
  "strategy_cls \<Rightarrow> data_frame \<Rightarrow> string \<Rightarrow> de_encoding \<Rightarrow> fval list \<Rightarrow> exn + fval" where
  \<comment> \<open>\<open>_func\<close>: the decoding loop is outside the \<open>try\<close>\<close>
  "func cls data metric enc x =
     (if list_ex isnan x then Inr penalty
      else
        case decode (cat_map enc) (zip x (zip (keys enc) (int_flags enc))) [] of
          Inl e \<Rightarrow> Inl e
        | Inr kwargs \<Rightarrow>
            (case evaluate cls data metric kwargs of
               Inr perf \<Rightarrow> Inr (fneg perf)
             | Inl e \<Rightarrow> Inr penalty))"

section \<open>Optimizer.best\_params\<close>

type_synonym row = "(string \<times> pyval) list"

definition iloc :: "'a list \<Rightarrow> int \<Rightarrow> exn + 'a" where
  \<comment> \<open>\<open>results.iloc[idx]\<close>: position \<open>idx\<close>, or \<open>len + idx\<close> for a negative \<open>idx\<close>\<close>
  "iloc rows idx =
     (if 0 \<le> idx \<and> nat idx < length rows then Inr (rows ! nat idx)
      else if idx < 0 \<and> nat (- idx) \<le> length rows
        then Inr (rows ! (length rows - nat (- idx)))
      else Inl (Exn IndexError ''single positional indexer is out-of-bounds''))"

fun has_item :: "pyval \<Rightarrow> bool" where
  \<comment> \<open>\<open>hasattr(v, 'item')\<close>: true of numpy scalars\<close>
  "has_item (NpInt i) = True"
| "has_item (NpFloat f) = True"
| "has_item (NpBool b) = True"
| "has_item v = False"

fun item :: "pyval \<Rightarrow> pyval" where
  \<comment> \<open>\<open>v.item()\<close>: the native Python value of a numpy scalar\<close>
  "item (NpInt i) = PInt i"
| "item (NpFloat f) = PFloat f"
| "item (NpBool b) = PBool b"
| "item v = v"

fun whole_float_to_int :: "pyval \<Rightarrow> pyval" where
  \<comment> \<open>\<open>int(v) if isinstance(v, float) and v.is_integer() else v\<close>\<close>
  "whole_float_to_int (PFloat (Fin r)) =
     (if r = of_int \<lfloor>r\<rfloor> then PInt \<lfloor>r\<rfloor> else PFloat (Fin r))"
| "whole_float_to_int (NpFloat (Fin r)) =
     (if r = of_int \<lfloor>r\<rfloor> then PInt \<lfloor>r\<rfloor> else NpFloat (Fin r))"
| "whole_float_to_int v = v"

definition native_value :: "pyval \<Rightarrow> pyval" where
  \<comment> \<open>the two conversions applied to a cell of the row\<close>
  "native_value v = whole_float_to_int (if has_item v then item v else v)"

fun best_params_loop :: "row \<Rightarrow> string list \<Rightarrow> params \<Rightarrow> exn + params" where
  "best_params_loop r [] out = Inr out"
| "best_params_loop r (k # ks) out =
     (case map_of r k of
        None \<Rightarrow> Inl (Exn KeyError k)
      | Some v \<Rightarrow> best_params_loop r ks (AList.update k (native_value v) out))"

definition best_params :: "grid \<Rightarrow> row list \<Rightarrow> int \<Rightarrow> exn + params" where
  "best_params g results idx =
     ebind (iloc results idx) (\<lambda>r. best_params_loop r (map fst g) [])"

section \<open>Example inputs\<close>

text \<open>
  A data frame with one \<open>close\<close> column, a strategy class that ignores its parameters
  and is always long, and a trial that suggests the first choice or the lower bound.
\<close>

definition example_data :: data_frame where
  "example_data = [''close'' \<mapsto> [Fin 100, Fin 110, Fin 121]]"

definition always_long :: "data_frame \<Rightarrow> exn + series" where
  "always_long data =
     (case data ''close'' of
        None \<Rightarrow> Inl (Exn KeyError ''close'')
      | Some price \<Rightarrow> Inr (replicate (length price) (Fin 1)))"

definition example_cls :: strategy_cls where
  "example_cls ps = Inr \<lparr> price_col = ''close'', generate_signals = always_long \<rparr>"

definition failing_cls :: strategy_cls where
  "failing_cls ps = Inl (Exn ValueError ''invalid parameters'')"

definition first_choice :: "string \<Rightarrow> pyval list \<Rightarrow> exn + pyval" where
  "first_choice name cs =
     (case cs of [] \<Rightarrow> Inl (Exn ValueError ''no choices'') | c # _ \<Rightarrow> Inr c)"

definition lower_int :: "string \<Rightarrow> int \<Rightarrow> int \<Rightarrow> int \<Rightarrow> exn + pyval" where
  "lower_int name lo hi st = Inr (PInt lo)"

definition lower_float :: "string \<Rightarrow> real \<Rightarrow> real \<Rightarrow> real option \<Rightarrow> exn + pyval" where
  "lower_float name lo hi st = Inr (PFloat (Fin lo))"

definition example_trial :: trial where
  "example_trial =
     \<lparr> suggest_categorical = first_choice, suggest_int = lower_int,
       suggest_float = lower_float, user_attrs = [] \<rparr>"

section \<open>The simulator contract, as the specification words it\<close>

text \<open>
  The formulas of the specification over plain reals, to be compared with what
  \<open>backtest\<close> computes. A signal series with missing entries is a list of optional
  reals, \<open>None\<close> being a missing (NaN) entry. The change of the signal is a parameter of
  the period return: \<open>claimed_signal_change\<close> reads a missing signal as 0, as the
  specification does for the position; \<open>defined_signal_change\<close> is 0 wherever one of
  the two signals is missing.
\<close>

definition of_opt :: "real option \<Rightarrow> fval" where
  "of_opt v = (case v of None \<Rightarrow> NaN | Some r \<Rightarrow> Fin r)"

definition spec_position :: "real option list \<Rightarrow> nat \<Rightarrow> real" where
  "spec_position ss t =
     (if t = 0 then 0 else case ss ! (t - 1) of None \<Rightarrow> 0 | Some s \<Rightarrow> s)"

definition spec_price_return :: "real list \<Rightarrow> nat \<Rightarrow> real" where
  "spec_price_return ps t = (if t = 0 then 0 else ps ! t / ps ! (t - 1) - 1)"

definition missing_as_zero :: "real option \<Rightarrow> real" where
  "missing_as_zero v = (case v of None \<Rightarrow> 0 | Some s \<Rightarrow> s)"

definition claimed_signal_change :: "real option list \<Rightarrow> nat \<Rightarrow> real" where
  "claimed_signal_change ss t =
     (if t = 0 then 0 else \<bar>missing_as_zero (ss ! t) - missing_as_zero (ss ! (t - 1))\<bar>)"

definition defined_signal_change :: "real option list \<Rightarrow> nat \<Rightarrow> real" where
  "defined_signal_change ss t =
     (if t = 0 then 0
      else case (ss ! t, ss ! (t - 1)) of
             (Some a, Some b) \<Rightarrow> \<bar>a - b\<bar>
           | _ \<Rightarrow> 0)"

definition spec_period_return ::
  "(real option list \<Rightarrow> nat \<Rightarrow> real) \<Rightarrow> real list \<Rightarrow> real option list \<Rightarrow> real \<Rightarrow> nat \<Rightarrow> real" where
  "spec_period_return change ps ss tc t =
     spec_position ss t * spec_price_return ps t - tc * change ss t"

definition spec_equity ::
  "(real option list \<Rightarrow> nat \<Rightarrow> real) \<Rightarrow> real list \<Rightarrow> real option list \<Rightarrow> real \<Rightarrow> real \<Rightarrow> nat \<Rightarrow> real" where
  "spec_equity change ps ss ic tc t =
     ic * (\<Prod>k\<le>t. 1 + spec_period_return change ps ss tc k)"

section \<open>Facts about series\<close>

lemma length_shift1: "length (shift1 xs) = length xs"
  by (cases xs) (simp_all add: shift1_def)

lemma nth_shift1: "t < length xs \<Longrightarrow> shift1 xs ! t = (if t = 0 then NaN else xs ! (t - 1))"
proof (cases xs)
  case Nil
  then show "t < length xs \<Longrightarrow> ?thesis" by simp
next
  case (Cons a list)
  assume t: "t < length xs"
  have s: "shift1 xs = NaN # butlast xs" using Cons by (simp add: shift1_def)
  show ?thesis
  proof (cases t)
    case 0
    then show ?thesis by (simp add: s)
  next
    case (Suc u)
    with t have "u < length (butlast xs)" by simp
    then have "butlast xs ! u = xs ! u" by (rule nth_butlast)
    with Suc show ?thesis by (simp add: s)
  qed
qed

lemma ffill_from_id: "NaN \<notin> set xs \<Longrightarrow> ffill_from p xs = xs"
  by (induction xs arbitrary: p) auto

lemma ffill_id: "NaN \<notin> set xs \<Longrightarrow> ffill xs = xs"
  by (simp add: ffill_def ffill_from_id)

lemma length_ffill_from: "length (ffill_from p xs) = length xs"
  by (induction xs arbitrary: p) auto

lemma length_pct_change: "length (pct_change xs) = length xs"
  by (simp add: pct_change_def Let_def length_shift1 ffill_def length_ffill_from)

lemma length_diff: "length (diff xs) = length xs"
  by (simp add: diff_def length_shift1)

lemma length_cumprod_from: "length (cumprod_from a xs) = length xs"
  by (induction xs arbitrary: a) auto

lemma length_strategy_return:
  "length sig = length price \<Longrightarrow> length (strategy_return price sig tc) = length price"
  by (simp add: strategy_return_def lagged_position_def price_return_def fillna_def
      length_shift1 length_pct_change length_diff)

lemma length_equity_of: "length (equity_of ic rs) = length rs"
  by (simp add: equity_of_def cumprod_def length_cumprod_from)

lemma cumprod_from_Fin:
  "t < length rs \<Longrightarrow> cumprod_from (Fin a) (map Fin rs) ! t = Fin (a * (\<Prod>k\<le>t. rs ! k))"
proof (induction rs arbitrary: a t)
  case Nil
  then show ?case by simp
next
  case (Cons r rs)
  show ?case
  proof (cases t)
    case 0
    then show ?thesis by simp
  next
    case (Suc u)
    with Cons.prems have "u < length rs" by simp
    from Cons.IH [OF this, of "a * r"] Suc show ?thesis
      by (simp add: prod.atMost_Suc_shift mult.assoc del: prod.atMost_Suc)
  qed
qed

lemma nth_lagged_position:
  "t < length ss \<Longrightarrow> lagged_position (map of_opt ss) ! t = Fin (spec_position ss t)"
  by (simp add: lagged_position_def fillna_def length_shift1 nth_shift1 fillna0_def
      spec_position_def of_opt_def split: option.splits)

lemma nth_price_return:
  assumes "0 \<notin> set ps" "t < length ps"
  shows "price_return (map Fin ps) ! t = Fin (spec_price_return ps t)"
proof -
  have nn: "NaN \<notin> set (map Fin ps)" by auto
  have "t \<noteq> 0 \<Longrightarrow> ps ! (t - 1) \<noteq> 0"
    using assms by (metis less_imp_diff_less nth_mem)
  then show ?thesis using assms(2)
    by (simp add: price_return_def pct_change_def Let_def ffill_id [OF nn] fillna_def length_shift1
        nth_shift1 fillna0_def spec_price_return_def fsub_def)
qed

lemma nth_signal_change:
  "t < length ss \<Longrightarrow>
   fillna (map fabs (diff (map of_opt ss))) ! t = Fin (defined_signal_change ss t)"
  by (simp add: fillna_def diff_def length_shift1 nth_shift1 fillna0_def fsub_def
      defined_signal_change_def of_opt_def split: option.splits)

lemma nth_strategy_return:
  assumes "length ss = length ps" "0 \<notin> set ps" "t < length ps"
  shows "strategy_return (map Fin ps) (map of_opt ss) tc ! t =
         Fin (spec_period_return defined_signal_change ps ss tc t)"
proof -
  have l1: "length (lagged_position (map of_opt ss)) = length ps"
    by (simp add: lagged_position_def fillna_def length_shift1 assms(1))
  have l2: "length (price_return (map Fin ps)) = length ps"
    by (simp add: price_return_def fillna_def length_pct_change)
  have l3: "length (fillna (map fabs (diff (map of_opt ss)))) = length ps"
    by (simp add: fillna_def length_diff assms(1))
  have t': "t < length ss" using assms by simp
  show ?thesis
    unfolding strategy_return_def
    using assms(3) l1 l2 l3
    by (simp add: nth_lagged_position [OF t'] nth_price_return [OF assms(2,3)]
        nth_signal_change [OF t'] fsub_def spec_period_return_def)
qed

lemma strategy_return_finite:
  assumes "length ss = length ps" "0 \<notin> set ps"
  shows "strategy_return (map Fin ps) (map of_opt ss) tc =
         map Fin (map (spec_period_return defined_signal_change ps ss tc) [0..<length ps])"
  by (rule nth_equalityI)
     (simp_all add: length_strategy_return assms nth_strategy_return)

lemma nth_equity_of_finite:
  assumes "t < length rs"
  shows "equity_of ic (map Fin rs) ! t = Fin (ic * (\<Prod>k\<le>t. 1 + rs ! k))"
proof -
  have m: "map (fadd (Fin 1)) (map Fin rs) = map Fin (map (\<lambda>r. 1 + r) rs)" by simp
  have "cumprod_from (Fin 1) (map Fin (map (\<lambda>r. 1 + r) rs)) ! t =
        Fin (1 * (\<Prod>k\<le>t. map (\<lambda>r. 1 + r) rs ! k))"
    by (rule cumprod_from_Fin) (simp add: assms)
  moreover have "(\<Prod>k\<le>t. map (\<lambda>r. 1 + r) rs ! k) = (\<Prod>k\<le>t. 1 + rs ! k)"
    by (rule prod.cong) (use assms in auto)
  ultimately show ?thesis using assms
    by (simp add: equity_of_def cumprod_def m length_cumprod_from del: map_map)
qed

lemma backtest_nth_finite:
  assumes "length ss = length ps" "0 \<notin> set ps" "t < length ps"
  shows "lagged_position (map of_opt ss) ! t = Fin (spec_position ss t) \<and>
         price_return (map Fin ps) ! t = Fin (spec_price_return ps t) \<and>
         returns (backtest (map Fin ps) (map of_opt ss) ic tc) ! t =
           Fin (spec_period_return defined_signal_change ps ss tc t) \<and>
         equity_curve (backtest (map Fin ps) (map of_opt ss) ic tc) ! t =
           Fin (spec_equity defined_signal_change ps ss ic tc t)"
proof -
  let ?f = "spec_period_return defined_signal_change ps ss tc"
  have "(\<Prod>k\<le>t. 1 + map ?f [0..<length ps] ! k) = (\<Prod>k\<le>t. 1 + ?f k)"
    by (rule prod.cong) (use assms(3) in auto)
  then have "equity_of ic (map Fin (map ?f [0..<length ps])) ! t =
        Fin (spec_equity defined_signal_change ps ss ic tc t)"
    using nth_equity_of_finite [of t "map ?f [0..<length ps]" ic] assms(3)
    by (simp add: spec_equity_def)
  then show ?thesis
    using assms nth_strategy_return [OF assms, of tc]
    by (simp add: backtest_def Let_def nth_lagged_position nth_price_return
        strategy_return_finite [OF assms(1,2)] del: map_map)
qed

section \<open>Facts about the first period and the all-zero signal\<close>

lemma fdiv_NaN_right: "fdiv x NaN = NaN"
  by (cases x) simp_all

lemma fadd_NaN_right: "fadd x NaN = NaN"
  by (cases x) simp_all

lemma strategy_return_first:
  "\<exists>rest. strategy_return (p # price) (s # sig) tc = Fin 0 # rest"
proof -
  obtain d ds where d: "ffill (p # price) = d # ds"
    by (cases "p = NaN") (auto simp: ffill_def)
  show ?thesis
    by (simp add: strategy_return_def lagged_position_def price_return_def pct_change_def
        d diff_def shift1_def fillna_def fillna0_def fsub_def fdiv_NaN_right fadd_NaN_right)
qed

lemma equity_first:
  assumes "length sig = length price" "price \<noteq> []"
  shows "equity_curve (backtest price sig ic tc) ! 0 = Fin ic"
proof -
  obtain p ps where p: "price = p # ps" using assms(2) by (cases price) auto
  with assms(1) obtain s ss where s: "sig = s # ss" by (cases sig) auto
  obtain rest where "strategy_return price sig tc = Fin 0 # rest"
    using strategy_return_first [of p ps s ss tc] p s by auto
  then show ?thesis
    by (simp add: backtest_def equity_of_def cumprod_def)
qed

lemma zero_signal_period_return:
  "t < n \<Longrightarrow> spec_period_return defined_signal_change ps (replicate n (Some 0)) tc t = 0"
  by (simp add: spec_period_return_def spec_position_def defined_signal_change_def)

lemma equity_zero_signal:
  assumes "0 \<notin> set ps" "t < length ps"
  shows "equity_curve (backtest (map Fin ps) (replicate (length ps) (Fin 0)) ic tc) ! t = Fin ic"
proof -
  let ?ss = "replicate (length ps) (Some (0::real))"
  have m: "map of_opt ?ss = replicate (length ps) (Fin 0)"
    by (simp add: of_opt_def)
  have "(\<Prod>k\<le>t. 1 + spec_period_return defined_signal_change ps ?ss tc k) = (\<Prod>k\<le>t. 1)"
    by (rule prod.cong) (use assms(2) in \<open>auto simp: zero_signal_period_return\<close>)
  then have "spec_equity defined_signal_change ps ?ss ic tc t = ic"
    by (simp add: spec_equity_def)
  with backtest_nth_finite [of ?ss ps t ic tc] assms show ?thesis unfolding m by simp
qed

lemma isfinite_Fin: "isfinite v \<Longrightarrow> \<exists>r. v = Fin r"
  by (cases v) simp_all

lemma length_price_return: "length (price_return price) = length price"
  by (simp add: price_return_def fillna_def length_pct_change)

lemma nth_strategy_return_zero_signal:
  assumes "\<forall>v\<in>set (price_return price). isfinite v" and "t < length price"
  shows "strategy_return price (replicate (length price) (Fin 0)) tc ! t = Fin 0"
proof -
  let ?sig = "replicate (length price) (Fin 0)"
  have "price_return price ! t \<in> set (price_return price)"
    using assms(2) by (simp add: length_price_return)
  with assms(1) obtain r where r: "price_return price ! t = Fin r"
    using isfinite_Fin by blast
  have pos: "lagged_position ?sig ! t = Fin 0"
    using assms(2) by (simp add: lagged_position_def fillna_def length_shift1 nth_shift1 fillna0_def)
  have chg: "fillna (map fabs (diff ?sig)) ! t = Fin 0"
    using assms(2)
    by (simp add: fillna_def diff_def length_shift1 nth_shift1 fillna0_def fsub_def)
  have l1: "length (lagged_position ?sig) = length price"
    by (simp add: lagged_position_def fillna_def length_shift1)
  have l3: "length (fillna (map fabs (diff ?sig))) = length price"
    by (simp add: fillna_def length_diff)
  show ?thesis
    unfolding strategy_return_def
    using assms(2) l1 l3 length_price_return [of price]
    by (simp add: pos r chg fsub_def)
qed

lemma equity_zero_signal_finite_returns:
  assumes "\<forall>v\<in>set (price_return price). isfinite v" and "t < length price"
  shows "equity_curve (backtest price (replicate (length price) (Fin 0)) ic tc) ! t = Fin ic"
proof -
  let ?sig = "replicate (length price) (Fin 0)"
  have sr: "strategy_return price ?sig tc = map Fin (replicate (length price) 0)"
    by (rule nth_equalityI)
       (simp_all add: length_strategy_return nth_strategy_return_zero_signal [OF assms(1)])
  have "(\<Prod>k\<le>t. 1 + replicate (length price) (0::real) ! k) = (\<Prod>k\<le>t. 1)"
    by (rule prod.cong) (use assms(2) in auto)
  then have "equity_of ic (map Fin (replicate (length price) 0)) ! t = Fin ic"
    using nth_equity_of_finite [of t "replicate (length price) 0" ic] assms(2) by simp
  then show ?thesis by (simp add: backtest_def Let_def sr)
qed

lemma price_return_example:
  "price_return [Fin 5, NaN, Fin 0, Fin 0] = [Fin 0, Fin 0, Fin (- 1), Fin 0]"
  by (simp add: price_return_def pct_change_def ffill_def shift1_def fillna_def fillna0_def
      fsub_def)

section \<open>The backtest\<close>

text \<open>
  Claim C1, as amended. For a price series of finite nonzero prices and a signal series
  whose entries are finite or missing, both on the same index, \<open>backtest\<close> computes
  at every period \<open>t\<close>: the lagged position \<open>pos[t] = signal[t-1]\<close> with
  \<open>pos[0] = 0\<close> and a missing signal read as 0; the price return
  \<open>price[t] / price[t-1] - 1\<close> with 0 at \<open>t = 0\<close>; the period return
  \<open>pos[t] * priceReturn[t] - cost * change[t]\<close>, where \<open>change[t]\<close> is
  \<open>|signal[t] - signal[t-1]|\<close> when both signals are present and 0 at \<open>t = 0\<close>
  and wherever one of the two is missing; and the equity
  \<open>initialCapital * \<Prod>k\<le>t. (1 + periodReturn[k])\<close>.
\<close>

theorem backtest_computes_contract:
  assumes "length ss = length ps" and "0 \<notin> set ps" and "t < length ps"
  shows "lagged_position (map of_opt ss) ! t = Fin (spec_position ss t) \<and>
         price_return (map Fin ps) ! t = Fin (spec_price_return ps t) \<and>
         returns (backtest (map Fin ps) (map of_opt ss) ic tc) ! t =
           Fin (spec_period_return defined_signal_change ps ss tc t) \<and>
         equity_curve (backtest (map Fin ps) (map of_opt ss) ic tc) ! t =
           Fin (spec_equity defined_signal_change ps ss ic tc t)"
  using assms by (rule backtest_nth_finite)

theorem backtest_computes_contract_witness:
  "length [Some 1, None, Some (1::real)] = length [100, 110, 121 :: real] \<and>
   0 \<notin> set [100, 110, 121 :: real] \<and> (2::nat) < length [100, 110, 121 :: real] \<and>
   lagged_position (map of_opt [Some 1, None, Some 1]) ! 2 = Fin 0 \<and>
   price_return (map Fin [100, 110, 121]) ! 2 = Fin (1 / 10) \<and>
   returns (backtest (map Fin [100, 110, 121]) (map of_opt [Some 1, None, Some 1]) 100 (1 / 100)) ! 2
     = Fin 0 \<and>
   equity_curve (backtest (map Fin [100, 110, 121]) (map of_opt [Some 1, None, Some 1]) 100 (1 / 100)) ! 2
     = Fin 110"
  using backtest_computes_contract [of "[Some 1, None, Some 1]" "[100, 110, 121]" 2 100 "1 / 100"]
  by (simp add: spec_position_def spec_price_return_def spec_period_return_def
      spec_equity_def defined_signal_change_def numeral_2_eq_2 atMost_Suc)

text \<open>
  Claim C1 as stated reads a missing signal as 0 in the signal change too. With prices
  100, 110, signal 1 then missing, and cost 1/100, the code charges no cost in period 1
  (period return 1/10), where the stated formula gives 1/10 - 1/100 * |0 - 1| = 9/100;
  the equity differs accordingly.
\<close>

theorem backtest_missing_signal_counterexample:
  "returns (backtest (map Fin [100, 110]) (map of_opt [Some 1, None]) 10000 (1 / 100)) ! 1
     = Fin (1 / 10) \<and>
   spec_period_return claimed_signal_change [100, 110] [Some 1, None] (1 / 100) 1 = 9 / 100 \<and>
   returns (backtest (map Fin [100, 110]) (map of_opt [Some 1, None]) 10000 (1 / 100)) ! 1
     \<noteq> Fin (spec_period_return claimed_signal_change [100, 110] [Some 1, None] (1 / 100) 1) \<and>
   equity_curve (backtest (map Fin [100, 110]) (map of_opt [Some 1, None]) 10000 (1 / 100)) ! 1
     \<noteq> Fin (spec_equity claimed_signal_change [100, 110] [Some 1, None] 10000 (1 / 100) 1)"
  by (simp add: backtest_def strategy_return_def lagged_position_def price_return_def
      pct_change_def ffill_def diff_def shift1_def fillna_def fillna0_def fsub_def
      equity_of_def cumprod_def of_opt_def spec_period_return_def Let_def spec_position_def
      spec_price_return_def claimed_signal_change_def missing_as_zero_def spec_equity_def
      atMost_Suc)

text \<open>
  Claim C2 says that the stored positions are the lagged signal, [0, 1, 1] for the signal
  [1, 1, 1]. The method computes that series as \<open>pos\<close> but stores the signal itself in
  \<open>self.positions\<close>: the stored positions are [1, 1, 1].
\<close>

theorem backtest_stores_signal_as_positions:
  "positions (backtest [Fin 100, Fin 110, Fin 121] [Fin 1, Fin 1, Fin 1] 10000 0)
     = [Fin 1, Fin 1, Fin 1] \<and>
   lagged_position [Fin 1, Fin 1, Fin 1] = [Fin 0, Fin 1, Fin 1]"
  by (simp add: backtest_def Let_def lagged_position_def shift1_def fillna_def fillna0_def)

text \<open>
  Claim C8, as amended. For every backtest whose signal and price series share a
  nonempty index, the first element of the equity curve is the initial capital,
  whatever the prices and signals are. With an all-zero signal the equity curve is the
  initial capital at every period provided every price return is finite, as it is for
  finite nonzero prices.
\<close>

theorem equity_starts_at_initial_capital:
  "(length sig = length price \<and> price \<noteq> [] \<longrightarrow>
      equity_curve (backtest price sig ic tc) ! 0 = Fin ic) \<and>
   ((\<forall>v\<in>set (price_return price). isfinite v) \<and> t < length price \<longrightarrow>
      equity_curve (backtest price (replicate (length price) (Fin 0)) ic tc) ! t = Fin ic) \<and>
   (0 \<notin> set ps \<and> t < length ps \<longrightarrow>
      equity_curve (backtest (map Fin ps) (replicate (length ps) (Fin 0)) ic tc) ! t = Fin ic)"
  using equity_first equity_zero_signal equity_zero_signal_finite_returns by blast

theorem equity_starts_at_initial_capital_witness:
  "length [Fin 1, NaN, PInf] = length [Fin 100, Fin 0, NInf] \<and> [Fin 100, Fin 0, NInf] \<noteq> [] \<and>
   equity_curve (backtest [Fin 100, Fin 0, NInf] [Fin 1, NaN, PInf] 10000 (1 / 100)) ! 0 = Fin 10000 \<and>
   price_return [Fin 5, NaN, Fin 0, Fin 0] = [Fin 0, Fin 0, Fin (- 1), Fin 0] \<and>
   (3::nat) < length [Fin 5, NaN, Fin 0, Fin 0] \<and>
   equity_curve (backtest [Fin 5, NaN, Fin 0, Fin 0]
      (replicate (length [Fin 5, NaN, Fin 0, Fin 0]) (Fin 0)) 10000 (1 / 100)) ! 3 = Fin 10000 \<and>
   0 \<notin> set [100, 110, 99 :: real] \<and> (2::nat) < length [100, 110, 99 :: real] \<and>
   equity_curve (backtest (map Fin [100, 110, 99]) (replicate (length [100, 110, 99 :: real]) (Fin 0))
      10000 (1 / 100)) ! 2 = Fin 10000"
  using equity_starts_at_initial_capital
    [where sig = "[Fin 1, NaN, PInf]" and price = "[Fin 100, Fin 0, NInf]" and ic = 10000
       and tc = "1 / 100" and t = 2 and ps = "[100, 110, 99]"]
    equity_starts_at_initial_capital
    [where price = "[Fin 5, NaN, Fin 0, Fin 0]" and ic = 10000 and tc = "1 / 100" and t = 3]
  by (simp add: price_return_example)

text \<open>
  Claim C8 as stated puts no condition on the prices. With the prices 0, 5, 10 and an
  all-zero signal the price return of the second period is infinite, the position 0
  times it is NaN, and the equity curve is the initial capital, NaN, the initial
  capital.
\<close>

theorem equity_zero_price_counterexample:
  "equity_curve (backtest [Fin 0, Fin 5, Fin 10] [Fin 0, Fin 0, Fin 0] 10000 0)
     = [Fin 10000, NaN, Fin 10000]"
  by (simp add: backtest_def Let_def strategy_return_def lagged_position_def price_return_def
      pct_change_def ffill_def diff_def shift1_def fillna_def fillna0_def fsub_def
      equity_of_def cumprod_def inf_signed_def)

section \<open>The performance summary\<close>

lemma gains_dropna: "gains (dropna xs) = gains xs"
proof -
  have "\<And>x. fgt x (Fin 0) \<Longrightarrow> x \<noteq> NaN" by (auto simp: fgt_def)
  then have "\<And>x. (x \<noteq> NaN \<and> fgt x (Fin 0)) = fgt x (Fin 0)" by blast
  then show ?thesis by (simp add: gains_def dropna_def)
qed

lemma dropna_insert_NaN: "dropna (xs @ NaN # ys) = dropna (xs @ ys)"
  by (simp add: dropna_def)

lemma summary_Inr:
  assumes "equity \<noteq> []"
  shows "summary (PerformanceAnalyzer equity rets) =
     Inr \<lparr> total_return = fsub (fdiv (last equity) (hd equity)) (Fin 1),
           ann_return = ann_return_of (fsub (fdiv (last equity) (hd equity)) (Fin 1)) (dropna rets),
           ann_vol = fmul (std (dropna rets)) sqrt_252,
           sharpe = sharpe_of (dropna rets),
           max_drawdown = max_drawdown_of equity,
           win_rate = fraction_positive (dropna rets),
           profit_factor = profit_factor_of (dropna rets),
           expectancy = expectancy_of (dropna rets) \<rparr>"
  using assms by (simp add: summary_def PerformanceAnalyzer_def Let_def)

section \<open>The deviation guard of the Sharpe ratio in double precision\<close>

lemma dbl_eval:
  assumes "2 powi e \<le> \<bar>x\<bar>" and "\<bar>x\<bar> < 2 powi (e + 1)"
  shows "dbl x = of_int (round_half_even (x / 2 powi (e - 52))) * 2 powi (e - 52)"
proof -
  have pos: "0 < \<bar>x\<bar>" using assms(1) by (smt (verit) zero_less_power_int)
  have p1: "(2::real) powr of_int e = 2 powi e" by (rule powr_real_of_int') auto
  have p2: "(2::real) powr of_int (e + 1) = 2 powi (e + 1)" by (rule powr_real_of_int') auto
  have "\<lfloor>log 2 \<bar>x\<bar>\<rfloor> = e"
    using floor_log_eq_powr_iff [of "\<bar>x\<bar>" 2 e] pos assms p1 p2 by simp
  moreover have "x \<noteq> 0" using pos by auto
  ultimately show ?thesis by (simp add: dbl_def Let_def)
qed

lemma round_half_even_bounds:
  "of_int \<lfloor>y\<rfloor> \<le> (of_int (round_half_even y) :: real) \<and> of_int (round_half_even y) \<le> y + 1"
  unfolding round_half_even_def Let_def by (auto split: if_splits) linarith+

lemma dbl_tenth: "dbl (1 / 10) = 3602879701896397 / 36028797018963968"
  using dbl_eval [of "- 4" "1 / 10"] by (simp add: round_half_even_def Let_def)

lemma dbl_d: "dbl (3602879701896397 / 36028797018963968) = 3602879701896397 / 36028797018963968"
  using dbl_eval [of "-4" "3602879701896397 / 36028797018963968"] by (simp add: round_half_even_def Let_def)

lemma dbl_2d: "dbl (3602879701896397 / 18014398509481984) = 3602879701896397 / 18014398509481984"
  using dbl_eval [of "-3" "3602879701896397 / 18014398509481984"] by (simp add: round_half_even_def Let_def)

lemma dbl_3d: "dbl (10808639105689191 / 36028797018963968) = 1351079888211149 / 4503599627370496"
  using dbl_eval [of "-2" "10808639105689191 / 36028797018963968"] by (simp add: round_half_even_def Let_def)

lemma dbl_avg: "dbl (1351079888211149 / 13510798882111488) = 7205759403792795 / 72057594037927936"
  using dbl_eval [of "-4" "1351079888211149 / 13510798882111488"] by (simp add: round_half_even_def Let_def)

lemma dbl_dev: "dbl (1 / 72057594037927936) = 1 / 72057594037927936"
  using dbl_eval [of "-56" "1 / 72057594037927936"] by (simp add: round_half_even_def Let_def)

lemma dbl_sq: "dbl (1 / 5192296858534827628530496329220096) = 1 / 5192296858534827628530496329220096"
  using dbl_eval [of "-112" "1 / 5192296858534827628530496329220096"] by (simp add: round_half_even_def Let_def)

lemma dbl_2sq: "dbl (1 / 2596148429267413814265248164610048) = 1 / 2596148429267413814265248164610048"
  using dbl_eval [of "-111" "1 / 2596148429267413814265248164610048"] by (simp add: round_half_even_def Let_def)

lemma dbl_3sq: "dbl (3 / 5192296858534827628530496329220096) = 3 / 5192296858534827628530496329220096"
  using dbl_eval [of "-111" "3 / 5192296858534827628530496329220096"] by (simp add: round_half_even_def Let_def)

lemma dbl_var: "dbl (3 / 10384593717069655257060992658440192) = 3 / 10384593717069655257060992658440192"
  using dbl_eval [of "-112" "3 / 10384593717069655257060992658440192"] by (simp add: round_half_even_def Let_def)

lemma rsum_tenths:
  "rsum [Fin (3602879701896397 / 36028797018963968), Fin (3602879701896397 / 36028797018963968), Fin (3602879701896397 / 36028797018963968)] = Fin (1351079888211149 / 4503599627370496)"
  by (simp add: rsum_def rnd_def dbl_d dbl_2d dbl_3d)

lemma mean_tenths:
  "mean [Fin (3602879701896397 / 36028797018963968), Fin (3602879701896397 / 36028797018963968), Fin (3602879701896397 / 36028797018963968)] = Fin (7205759403792795 / 72057594037927936)"
  by (simp add: mean_def dropna_def rsum_tenths rnd_def dbl_avg)

lemma rsum_squares:
  "rsum [Fin (1 / 5192296858534827628530496329220096), Fin (1 / 5192296858534827628530496329220096), Fin (1 / 5192296858534827628530496329220096)] = Fin (3 / 5192296858534827628530496329220096)"
  by (simp add: rsum_def rnd_def dbl_sq dbl_2sq dbl_3sq)

lemma std_tenths:
  "std [Fin (3602879701896397 / 36028797018963968), Fin (3602879701896397 / 36028797018963968), Fin (3602879701896397 / 36028797018963968)] = Fin (dbl (sqrt (3 / 10384593717069655257060992658440192)))"
  by (simp add: std_def dropna_def Let_def rsum_tenths rsum_squares rnd_def fsub_def
      dbl_avg dbl_dev dbl_sq dbl_var)

lemma sqrt_var_bounds:
  "2 powi (- 56) \<le> \<bar>sqrt (3 / 10384593717069655257060992658440192)\<bar> \<and> \<bar>sqrt (3 / 10384593717069655257060992658440192)\<bar> < 2 powi (- 56 + 1)"
proof -
  have "(1 / 72057594037927936)\<^sup>2 \<le> (3 / 10384593717069655257060992658440192 :: real)" by (simp add: power2_eq_square)
  then have "1 / 72057594037927936 \<le> sqrt (3 / 10384593717069655257060992658440192)" by (rule real_le_rsqrt)
  moreover have "sqrt (3 / 10384593717069655257060992658440192) < 1 / 36028797018963968"
    by (rule real_less_lsqrt) (simp_all add: power2_eq_square)
  ultimately show ?thesis by simp
qed

lemma dbl_sqrt_var_bounds:
  "0 < dbl (sqrt (3 / 10384593717069655257060992658440192)) \<and> dbl (sqrt (3 / 10384593717069655257060992658440192)) \<le> 1 / 18014398509481984"
proof -
  let ?x = "sqrt (3 / 10384593717069655257060992658440192) :: real"
  let ?u = "(2::real) powi (- 56 - 52)"
  from sqrt_var_bounds have b: "2 powi (- 56) \<le> \<bar>?x\<bar>" "\<bar>?x\<bar> < 2 powi (- 56 + 1)" by auto
  have d: "dbl ?x = of_int (round_half_even (?x / ?u)) * ?u"
    using dbl_eval [OF b] .
  have xpos: "0 \<le> ?x" by simp
  have lo: "2 ^ 52 \<le> ?x / ?u" and hi: "?x / ?u < 2 ^ 53"
    using b xpos by (simp_all add: field_simps)
  from lo have "(2 ^ 52 :: int) \<le> \<lfloor>?x / ?u\<rfloor>" by (simp add: le_floor_iff)
  then have "(2 ^ 52 :: real) \<le> of_int \<lfloor>?x / ?u\<rfloor>"
    by (metis of_int_le_iff of_int_numeral of_int_power)
  moreover have "of_int \<lfloor>?x / ?u\<rfloor> \<le> (of_int (round_half_even (?x / ?u)) :: real)"
    using round_half_even_bounds [of "?x / ?u"] by blast
  ultimately have r1: "(2 ^ 52 :: real) \<le> of_int (round_half_even (?x / ?u))" by linarith
  have "of_int (round_half_even (?x / ?u)) \<le> ?x / ?u + 1"
    using round_half_even_bounds [of "?x / ?u"] by blast
  with hi have r2: "of_int (round_half_even (?x / ?u)) \<le> (2 ^ 53 + 1 :: real)" by linarith
  have upos: "0 < ?u" by simp
  from r1 upos have "0 < of_int (round_half_even (?x / ?u)) * ?u"
    by (smt (verit) mult_pos_pos zero_less_power)
  moreover from r2 upos have "of_int (round_half_even (?x / ?u)) * ?u \<le> (2 ^ 53 + 1) * ?u"
    by (simp add: mult_right_mono)
  moreover have "(2 ^ 53 + 1) * ?u \<le> 1 / 18014398509481984" by simp
  ultimately show ?thesis unfolding d by linarith
qed

text \<open>
  Claim C6 says that a returns series with zero standard deviation has the Sharpe
  metric NaN. The guard of the summary tests the deviation as computed in double
  precision. For the constant series 0.1, 0.1, 0.1 the computed mean is
  0.10000000000000002, one unit in the last place above the entries, so the computed
  deviation is not zero, the guard passes, and the Sharpe metric is a number above
  1e16 instead of NaN.
\<close>

theorem sharpe_of_constant_returns:
  "mean [Fin (dbl (1 / 10)), Fin (dbl (1 / 10)), Fin (dbl (1 / 10))]
     = Fin (7205759403792795 / 72057594037927936) \<and>
   std [Fin (dbl (1 / 10)), Fin (dbl (1 / 10)), Fin (dbl (1 / 10))]
     = Fin (dbl (sqrt (3 / 2 ^ 113))) \<and>
   std [Fin (dbl (1 / 10)), Fin (dbl (1 / 10)), Fin (dbl (1 / 10))] \<noteq> Fin 0 \<and>
   (\<exists>s r. summary (PerformanceAnalyzer [Fin 100, Fin 110, Fin 121]
                  [Fin (dbl (1 / 10)), Fin (dbl (1 / 10)), Fin (dbl (1 / 10))]) = Inr s \<and>
          sharpe s = Fin r \<and> 10 ^ 16 < r)"
proof -
  let ?rs = "[Fin (3602879701896397 / 36028797018963968), Fin (3602879701896397 / 36028797018963968), Fin (3602879701896397 / 36028797018963968)]"
  let ?sd = "dbl (sqrt (3 / 10384593717069655257060992658440192))"
  have dr: "dropna ?rs = ?rs" by (simp add: dropna_def)
  from dbl_sqrt_var_bounds have sd: "0 < ?sd" "?sd \<le> 1 / 18014398509481984" by auto
  have nz: "std ?rs \<noteq> Fin 0" using sd(1) by (simp add: std_tenths)
  have sh: "sharpe_of ?rs = Fin (7205759403792795 / 72057594037927936 / ?sd * sqrt 252)"
    using sd(1) by (simp add: sharpe_of_def truthy_def std_tenths mean_tenths sqrt_252_def)
  have "1 / 10 * 18014398509481984 \<le> 7205759403792795 / 72057594037927936 / ?sd"
  proof -
    have "(1 / 10 :: real) \<le> 7205759403792795 / 72057594037927936" by simp
    moreover have "18014398509481984 \<le> 1 / ?sd"
      using sd by (simp add: field_simps)
    ultimately have "1 / 10 * 18014398509481984 \<le> 7205759403792795 / 72057594037927936 * (1 / ?sd)"
      by (rule mult_mono) simp_all
    then show ?thesis by simp
  qed
  moreover have "(15::real) \<le> sqrt 252" by (rule real_le_rsqrt) (simp add: power2_eq_square)
  ultimately have "1 / 10 * 18014398509481984 * 15 \<le> 7205759403792795 / 72057594037927936 / ?sd * sqrt 252"
    by (rule mult_mono) (use sd in simp_all)
  then have big: "10 ^ 16 < 7205759403792795 / 72057594037927936 / ?sd * sqrt 252" by simp
  have sm: "\<exists>s r. summary (PerformanceAnalyzer [Fin 100, Fin 110, Fin 121] ?rs) = Inr s \<and>
         sharpe s = Fin r \<and> 10 ^ 16 < r"
    using big by (simp add: summary_Inr dr sh)
  show ?thesis
    using nz sm by (simp add: dbl_tenth mean_tenths std_tenths)
qed

text \<open>
  Claim C9. The analyzer keeps the returns without their NaN entries, so a NaN period
  changes no metric: the summary is the same with and without it. The observation
  count of the annualized return, the volatility, the Sharpe ratio, the win rate (its
  numerator and its denominator), the profit factor and the expectancy are computed
  from the non-NaN returns only.
\<close>

theorem analyzer_uses_only_non_nan_returns:
  "pa_returns (PerformanceAnalyzer equity rets) = dropna rets \<and>
   NaN \<notin> set (pa_returns (PerformanceAnalyzer equity rets)) \<and>
   summary (PerformanceAnalyzer equity (xs @ NaN # ys)) =
     summary (PerformanceAnalyzer equity (xs @ ys)) \<and>
   (equity \<noteq> [] \<longrightarrow>
     (\<exists>s. summary (PerformanceAnalyzer equity rets) = Inr s \<and>
          ann_return s = (if length (dropna rets) = 0 then NaN
                          else fsub (annual_power (fadd (Fin 1) (total_return s))
                                      (length (dropna rets))) (Fin 1)) \<and>
          ann_vol s = fmul (std (dropna rets)) sqrt_252 \<and>
          sharpe s = sharpe_of (dropna rets) \<and>
          win_rate s = (if dropna rets = [] then NaN
                        else Fin (real (length (gains rets)) / real (length (dropna rets)))) \<and>
          profit_factor s = profit_factor_of (dropna rets) \<and>
          expectancy s = expectancy_of (dropna rets)))"
proof -
  have a: "PerformanceAnalyzer equity (xs @ NaN # ys) = PerformanceAnalyzer equity (xs @ ys)"
    by (simp add: PerformanceAnalyzer_def dropna_insert_NaN)
  have b: "NaN \<notin> set (dropna rets)" by (simp add: dropna_def)
  have d: "pa_returns (PerformanceAnalyzer equity rets) = dropna rets"
    by (simp add: PerformanceAnalyzer_def)
  have c: "\<exists>s. summary (PerformanceAnalyzer equity rets) = Inr s \<and>
          ann_return s = (if length (dropna rets) = 0 then NaN
                          else fsub (annual_power (fadd (Fin 1) (total_return s))
                                      (length (dropna rets))) (Fin 1)) \<and>
          ann_vol s = fmul (std (dropna rets)) sqrt_252 \<and>
          sharpe s = sharpe_of (dropna rets) \<and>
          win_rate s = (if dropna rets = [] then NaN
                        else Fin (real (length (gains rets)) / real (length (dropna rets)))) \<and>
          profit_factor s = profit_factor_of (dropna rets) \<and>
          expectancy s = expectancy_of (dropna rets)" if "equity \<noteq> []"
    by (simp add: summary_Inr [OF that] ann_return_of_def Let_def fraction_positive_def
        gains_dropna)
  show ?thesis
    unfolding a d using b c by blast
qed

theorem analyzer_uses_only_non_nan_returns_witness:
  "[Fin 100, Fin 99] \<noteq> [] \<and>
   (\<exists>s. summary (PerformanceAnalyzer [Fin 100, Fin 99] [Fin 1, NaN, Fin (- 1), NaN]) = Inr s \<and>
        win_rate s = Fin (1 / 2))"
  using analyzer_uses_only_non_nan_returns [of "[Fin 100, Fin 99]" "[Fin 1, NaN, Fin (- 1), NaN]"]
  by (auto simp: dropna_def gains_def fgt_def)

section \<open>The search objectives\<close>

lemma example_backtest:
  "backtest [Fin 100, Fin 110, Fin 121] [Fin 1, Fin 1, Fin 1] 10000 0 =
     \<lparr> positions = [Fin 1, Fin 1, Fin 1],
       returns = [Fin 0, Fin (1 / 10), Fin (1 / 10)],
       equity_curve = [Fin 10000, Fin 11000, Fin 12100] \<rparr>"
  by (simp add: backtest_def Let_def strategy_return_def lagged_position_def price_return_def
      pct_change_def ffill_def diff_def shift1_def fillna_def fillna0_def fsub_def
      equity_of_def cumprod_def)

lemma example_total_return:
  "evaluate example_cls example_data ''Total Return'' ps = Inr (Fin (21 / 100))"
  by (simp add: evaluate_def example_cls_def run_backtest_def example_data_def always_long_def
      ebind_def example_backtest summary_Inr summary_get_def fsub_def numeral_3_eq_3)

lemma example_profit_factor:
  "evaluate example_cls example_data ''Profit Factor'' ps = Inr NaN"
  by (simp add: evaluate_def example_cls_def run_backtest_def example_data_def always_long_def
      ebind_def example_backtest summary_Inr summary_get_def numeral_3_eq_3
      profit_factor_of_def losses_def dropna_def)

text \<open>
  Claim C3, as amended. For every input vector with at least one NaN component the
  objective of \<open>optimize_de\<close> returns the penalty 1e6, whatever the strategy class
  and the data are: nothing is decoded or evaluated, and nothing is raised.
\<close>

theorem func_penalty_on_nan:
  "NaN \<in> set x \<Longrightarrow> func cls data metric enc x = Inr (Fin 1000000)"
  by (auto simp: func_def penalty_def list_ex_iff isnan_def)

theorem func_penalty_on_nan_witness:
  "NaN \<in> set [Fin 7, NaN] \<and>
   func failing_cls example_data ''Sharpe'' empty_encoding [Fin 7, NaN] = Inr (Fin 1000000)"
  using func_penalty_on_nan [of "[Fin 7, NaN]" failing_cls example_data "''Sharpe''" empty_encoding]
  by simp

text \<open>
  Claim C3 as stated covers infinite components too. The early test is
  \<open>np.isnan\<close> only: an infinite component of an integer dimension raises
  OverflowError in \<open>int(round(xi))\<close>, outside the \<open>try\<close>, and an infinite
  component of a real dimension is passed on to the strategy and evaluated.
\<close>

theorem func_infinite_component_counterexample:
  "de_encode [(''window'', [PInt 5, PInt 10])] empty_encoding =
     Inr \<lparr> keys = [''window''], bounds = [(PInt 5, PInt 10)], int_flags = [True], cat_map = [] \<rparr> \<and>
   func example_cls example_data ''Total Return''
     \<lparr> keys = [''window''], bounds = [(PInt 5, PInt 10)], int_flags = [True], cat_map = [] \<rparr> [PInf]
     = Inl (Exn OverflowError ''cannot convert float infinity to integer'') \<and>
   func example_cls example_data ''Total Return''
     \<lparr> keys = [''weight''], bounds = [(NpFloat (Fin 0), NpFloat (Fin 1))], int_flags = [False],
       cat_map = [] \<rparr> [PInf]
     = Inr (Fin (- (21 / 100)))"
  by (simp add: empty_encoding_def py_min_def py_max_def fgt_def ebind_def func_def isnan_def
      decode_value_def py_round_def example_total_return)

text \<open>
  Claim C5, as amended. For every trial whose parameter sampling returns, the objective
  of \<open>optimize_bayesian\<close> returns a value: the metric when it is finite, minus
  infinity when it is not, and minus infinity with the message of the exception
  recorded under \<open>error\<close> in the user attributes of the trial when instantiation,
  backtest or evaluation raises.
\<close>

theorem objective_returns_after_sampling:
  assumes "sample_params tr cfg = Inr ps"
  shows "\<exists>out. objective cls cfg data metric tr = Inr out \<and>
           (\<forall>sc. evaluate cls data metric ps = Inr sc \<longrightarrow>
                 score out = (if isfinite sc then sc else NInf) \<and> attrs out = user_attrs tr) \<and>
           (\<forall>e. evaluate cls data metric ps = Inl e \<longrightarrow>
                 score out = NInf \<and> map_of (attrs out) ''error'' = Some (str_of_exn e))"
  by (cases "evaluate cls data metric ps") (simp_all add: objective_def assms update_conv')

theorem objective_returns_after_sampling_witness:
  "sample_params example_trial [(''window'', IntRange 5 10 None)] = Inr [(''window'', PInt 5)] \<and>
   (\<exists>out. objective failing_cls [(''window'', IntRange 5 10 None)] example_data ''Sharpe'' example_trial
            = Inr out \<and> score out = NInf \<and> map_of (attrs out) ''error'' = Some ''invalid parameters'') \<and>
   (\<exists>out. objective example_cls [(''window'', IntRange 5 10 None)] example_data ''Profit Factor''
            example_trial = Inr out \<and> score out = NInf \<and> attrs out = []) \<and>
   (\<exists>out. objective example_cls [(''window'', IntRange 5 10 None)] example_data ''Total Return''
            example_trial = Inr out \<and> score out = Fin (21 / 100) \<and> attrs out = [])"
proof -
  have s: "sample_params example_trial [(''window'', IntRange 5 10 None)] = Inr [(''window'', PInt 5)]"
    by (simp add: example_trial_def lower_int_def ebind_def)
  have e: "evaluate failing_cls example_data ''Sharpe'' [(''window'', PInt 5)]
             = Inl (Exn ValueError ''invalid parameters'')"
    by (simp add: evaluate_def failing_cls_def ebind_def)
  have u: "user_attrs example_trial = []"
    by (simp add: example_trial_def)
  show ?thesis
    using objective_returns_after_sampling [OF s, of failing_cls example_data "''Sharpe''"]
      objective_returns_after_sampling [OF s, of example_cls example_data "''Profit Factor''"]
      objective_returns_after_sampling [OF s, of example_cls example_data "''Total Return''"]
      s e u
    by (auto simp: example_profit_factor example_total_return)
qed

text \<open>
  Claim C5 as stated says that the objective never raises. \<open>sample_params\<close> runs
  before the \<open>try\<close> and raises TypeError for a parameter whose type is neither
  \<open>int\<close> nor \<open>float\<close>; the constructor of the optimizer accepts such a
  configuration.
\<close>

theorem objective_raises_counterexample:
  "param_grid [(''weight'', RealRange IsOther 0 1 (Some 1) None)] = Inr [(''weight'', [NpFloat (Fin 0)])] \<and>
   objective example_cls [(''weight'', RealRange IsOther 0 1 (Some 1) None)] example_data ''Sharpe''
     example_trial = Inl (Exn TypeError ''Unsupported or missing param_config'')"
  by (simp add: ebind_def linspace_def objective_def)

section \<open>The encoding of the parameter space for differential evolution\<close>

lemma ebind_Inr_iff: "(ebind m f = Inr y) = (\<exists>v. m = Inr v \<and> f v = Inr y)"
  by (cases m) (simp_all add: ebind_def)

lemma param_grid_entries:
  "param_grid cfg = Inr g \<Longrightarrow>
   map fst g = map fst cfg \<and>
   (\<forall>i<length cfg. grid_values (snd (cfg ! i)) = Inr (snd (g ! i)))"
proof (induction cfg arbitrary: g)
  case Nil
  then show ?case by simp
next
  case (Cons c cfg)
  obtain name spec where c: "c = (name, spec)" by (cases c)
  from Cons.prems c obtain vals g' where
    v: "grid_values spec = Inr vals" and g': "param_grid cfg = Inr g'" and g: "g = (name, vals) # g'"
    by (auto simp: ebind_Inr_iff)
  from Cons.IH [OF g'] have ih: "map fst g' = map fst cfg"
    "\<forall>i<length cfg. grid_values (snd (cfg ! i)) = Inr (snd (g' ! i))" by auto
  show ?case
  proof (intro conjI allI impI)
    show "map fst g = map fst (c # cfg)" using ih(1) g c by simp
  next
    fix i assume "i < length (c # cfg)"
    then show "grid_values (snd ((c # cfg) ! i)) = Inr (snd (g ! i))"
      using ih(2) v g c by (cases i) auto
  qed
qed

lemma de_encode_extends:
  "de_encode g e0 = Inr e \<Longrightarrow>
   \<exists>ks bs fs. keys e = keys e0 @ ks \<and> bounds e = bounds e0 @ bs \<and> int_flags e = int_flags e0 @ fs"
proof (induction g arbitrary: e0)
  case Nil
  then show ?case by simp
next
  case (Cons p g)
  obtain k vals where p: "p = (k, vals)" by (cases p)
  show ?case
  proof (cases "list_all is_number vals")
    case True
    with Cons.prems p obtain low high where
      "de_encode g (e0 \<lparr> keys := keys e0 @ [k], bounds := bounds e0 @ [(low, high)],
                        int_flags := int_flags e0 @ [list_all is_int vals] \<rparr>) = Inr e"
      by (auto simp: ebind_Inr_iff)
    from Cons.IH [OF this] show ?thesis by auto
  next
    case False
    with Cons.prems p have
      "de_encode g (e0 \<lparr> cat_map := AList.update k vals (cat_map e0), keys := keys e0 @ [k],
                        bounds := bounds e0 @ [(PInt 0, PInt (int (length vals) - 1))],
                        int_flags := int_flags e0 @ [True] \<rparr>) = Inr e"
      by simp
    from Cons.IH [OF this] show ?thesis by auto
  qed
qed

lemma de_encode_nth:
  assumes "de_encode g e0 = Inr e" and "i < length g"
    and "length (keys e0) = n" and "length (bounds e0) = n" and "length (int_flags e0) = n"
  shows "keys e ! (n + i) = fst (g ! i) \<and>
         (if list_all is_number (snd (g ! i))
          then py_min (snd (g ! i)) = Inr (fst (bounds e ! (n + i))) \<and>
               py_max (snd (g ! i)) = Inr (snd (bounds e ! (n + i))) \<and>
               int_flags e ! (n + i) = list_all is_int (snd (g ! i))
          else bounds e ! (n + i) = (PInt 0, PInt (int (length (snd (g ! i))) - 1)) \<and>
               int_flags e ! (n + i))"
  using assms
proof (induction g arbitrary: e0 i n)
  case Nil
  then show ?case by simp
next
  case (Cons p g)
  obtain k vals where p: "p = (k, vals)" by (cases p)
  show ?case
  proof (cases "list_all is_number vals")
    case True
    with Cons.prems(1) p obtain low high where
      lo: "py_min vals = Inr low" and hi: "py_max vals = Inr high" and
      rec: "de_encode g (e0 \<lparr> keys := keys e0 @ [k], bounds := bounds e0 @ [(low, high)],
                        int_flags := int_flags e0 @ [list_all is_int vals] \<rparr>) = Inr e"
      (is "de_encode g ?e1 = Inr e")
      by (auto simp: ebind_Inr_iff)
    show ?thesis
    proof (cases i)
      case 0
      from de_encode_extends [OF rec] obtain ks bs fs where
        "keys e = keys ?e1 @ ks" "bounds e = bounds ?e1 @ bs" "int_flags e = int_flags ?e1 @ fs"
        by blast
      then show ?thesis
        using 0 p True lo hi Cons.prems(3-5) by (simp add: nth_append)
    next
      case (Suc j)
      with Cons.prems(2) have j: "j < length g" by simp
      from Cons.IH [OF rec j, of "Suc n"] Cons.prems(3-5) Suc show ?thesis
        by (simp cong: if_cong)
    qed
  next
    case False
    with Cons.prems(1) p have
      rec: "de_encode g (e0 \<lparr> cat_map := AList.update k vals (cat_map e0), keys := keys e0 @ [k],
                        bounds := bounds e0 @ [(PInt 0, PInt (int (length vals) - 1))],
                        int_flags := int_flags e0 @ [True] \<rparr>) = Inr e"
      (is "de_encode g ?e1 = Inr e")
      by simp
    show ?thesis
    proof (cases i)
      case 0
      from de_encode_extends [OF rec] obtain ks bs fs where
        "keys e = keys ?e1 @ ks" "bounds e = bounds ?e1 @ bs" "int_flags e = int_flags ?e1 @ fs"
        by blast
      then show ?thesis
        using 0 p False Cons.prems(3-5) by (simp add: nth_append)
    next
      case (Suc j)
      with Cons.prems(2) have j: "j < length g" by simp
      from Cons.IH [OF rec j, of "Suc n"] Cons.prems(3-5) Suc show ?thesis
        by (simp cong: if_cong)
    qed
  qed
qed

lemma de_encode_cat_map:
  assumes "de_encode g e0 = Inr e" and "distinct (map fst g)"
  shows "map_of (cat_map e) k =
         (case map_of g k of
            None \<Rightarrow> map_of (cat_map e0) k
          | Some vals \<Rightarrow> if list_all is_number vals then map_of (cat_map e0) k else Some vals)"
  using assms
proof (induction g arbitrary: e0)
  case Nil
  then show ?case by simp
next
  case (Cons p g)
  obtain k' vals where p: "p = (k', vals)" by (cases p)
  from Cons.prems(2) p have d: "distinct (map fst g)" and nk: "map_of g k' = None"
    by (auto simp: map_of_eq_None_iff)
  show ?case
  proof (cases "list_all is_number vals")
    case True
    with Cons.prems(1) p obtain low high where
      rec: "de_encode g (e0 \<lparr> keys := keys e0 @ [k'], bounds := bounds e0 @ [(low, high)],
                        int_flags := int_flags e0 @ [list_all is_int vals] \<rparr>) = Inr e"
      by (auto simp: ebind_Inr_iff)
    from Cons.IH [OF rec d] show ?thesis using p True nk by (auto split: option.splits)
  next
    case False
    with Cons.prems(1) p have
      rec: "de_encode g (e0 \<lparr> cat_map := AList.update k' vals (cat_map e0), keys := keys e0 @ [k'],
                        bounds := bounds e0 @ [(PInt 0, PInt (int (length vals) - 1))],
                        int_flags := int_flags e0 @ [True] \<rparr>) = Inr e"
      by simp
    from Cons.IH [OF rec d] show ?thesis using p False nk
      by (auto simp: update_conv' split: option.splits)
  qed
qed

lemma decode_value_member:
  assumes "map_of cm k = Some vals" and "vals \<noteq> []"
  shows "\<exists>v. decode_value cm (Fin r) k flag = Inr v \<and> v \<in> set vals"
proof -
  let ?idx = "max 0 (min (round_half_even r) (int (length vals) - 1))"
  have "0 < length vals" using assms(2) by simp
  then have "nat ?idx < length vals" by arith
  then show ?thesis
    by (simp add: decode_value_def assms(1) py_round_def ebind_def Let_def)
qed

lemma round_half_even_nearest:
  "\<bar>of_int (round_half_even r) - r\<bar> < 1 / 2 \<or>
   (\<bar>of_int (round_half_even r) - r\<bar> = 1 / 2 \<and> even (round_half_even r))"
  unfolding round_half_even_def Let_def
  by (auto split: if_splits)

lemma decode_value_categorical:
  assumes "map_of cm k = Some vals" and "vals \<noteq> []"
  shows "decode_value cm (Fin r) k flag =
         Inr (vals ! nat (max 0 (min (round_half_even r) (int (length vals) - 1))))"
proof -
  let ?idx = "max 0 (min (round_half_even r) (int (length vals) - 1))"
  have "0 < length vals" using assms(2) by simp
  then have "nat ?idx < length vals" by arith
  then show ?thesis
    by (simp add: decode_value_def assms(1) py_round_def ebind_def Let_def)
qed

lemma decode_value_numeric:
  assumes "map_of cm k = None"
  shows "decode_value cm x k flag =
         (if flag then ebind (py_round x) (\<lambda>n. Inr (PInt n)) else Inr (PFloat x))"
  by (simp add: decode_value_def assms)

text \<open>
  Claim C7, as amended. Take a configuration with distinct names, its grid and the
  encoding \<open>optimize_de\<close> builds from the grid. A parameter whose grid values are not
  all numbers (a choices list with a non-numeric entry) is encoded with the bounds
  \<open>(0, len(choices) - 1)\<close> and the integer flag, and a finite component \<open>r\<close>
  decodes to the choice at the index \<open>max 0 (min j (len(choices) - 1))\<close>, where
  \<open>j\<close> is the integer nearest to \<open>r\<close>, the even one of the two when \<open>r\<close> lies
  halfway; so every decoded value is a member of its choices. A parameter whose grid
  values are all numbers (an integer or real range, and also a choices list of
  numbers) is encoded with the bounds \<open>(min, max)\<close> of its grid values and decoded
  to the nearest integer (ties to even) when all grid values are ints, to the float
  itself otherwise.
\<close>

theorem de_encoding_of_parameters:
  assumes "param_grid cfg = Inr g" and "de_encode g empty_encoding = Inr enc"
    and "distinct (map fst cfg)" and "i < length cfg" and "cfg ! i = (k, spec)"
    and "grid_values spec = Inr vals"
  shows "keys enc ! i = k \<and>
         (\<forall>cs. spec = Choices cs \<longrightarrow> vals = cs) \<and>
         (\<not> list_all is_number vals \<longrightarrow>
            bounds enc ! i = (PInt 0, PInt (int (length vals) - 1)) \<and> int_flags enc ! i \<and>
            (\<forall>r. \<exists>v. decode_value (cat_map enc) (Fin r) k (int_flags enc ! i) = Inr v \<and>
                      v \<in> set vals) \<and>
            (\<forall>r. \<exists>j. (\<bar>of_int j - r\<bar> < 1 / 2 \<or> \<bar>of_int j - r\<bar> = 1 / 2 \<and> even j) \<and>
                      decode_value (cat_map enc) (Fin r) k (int_flags enc ! i) =
                        Inr (vals ! nat (max 0 (min j (int (length vals) - 1)))))) \<and>
         (list_all is_number vals \<longrightarrow>
            py_min vals = Inr (fst (bounds enc ! i)) \<and>
            py_max vals = Inr (snd (bounds enc ! i)) \<and>
            int_flags enc ! i = list_all is_int vals \<and>
            (\<forall>x. decode_value (cat_map enc) x k (int_flags enc ! i) =
                  (if list_all is_int vals then ebind (py_round x) (\<lambda>n. Inr (PInt n))
                   else Inr (PFloat x))) \<and>
            (list_all is_int vals \<longrightarrow>
               (\<forall>r. \<exists>j. (\<bar>of_int j - r\<bar> < 1 / 2 \<or> \<bar>of_int j - r\<bar> = 1 / 2 \<and> even j) \<and>
                         decode_value (cat_map enc) (Fin r) k (int_flags enc ! i) = Inr (PInt j))))"
proof -
  from param_grid_entries [OF assms(1)] have
    fg: "map fst g = map fst cfg" and
    gv: "\<forall>i<length cfg. grid_values (snd (cfg ! i)) = Inr (snd (g ! i))" by auto
  from fg have len: "length g = length cfg" by (metis length_map)
  with assms(4) have ig: "i < length g" by simp
  from fg ig have "fst (g ! i) = fst (cfg ! i)" by (metis nth_map len)
  with assms(5) have fk: "fst (g ! i) = k" by simp
  from gv assms(4,5,6) have sv: "snd (g ! i) = vals" by auto
  have dg: "distinct (map fst g)" using fg assms(3) by simp
  have gi: "g ! i = (k, vals)" using fk sv by (metis prod.collapse)
  have mo: "map_of g k = Some vals"
    using dg ig gi by (metis map_of_eq_Some_iff nth_mem)
  have nth: "keys enc ! i = k \<and>
         (if list_all is_number vals
          then py_min vals = Inr (fst (bounds enc ! i)) \<and>
               py_max vals = Inr (snd (bounds enc ! i)) \<and>
               int_flags enc ! i = list_all is_int vals
          else bounds enc ! i = (PInt 0, PInt (int (length vals) - 1)) \<and> int_flags enc ! i)"
    using de_encode_nth [OF assms(2) ig, of 0] fk sv
    by (simp add: empty_encoding_def cong: if_cong)
  have cm: "map_of (cat_map enc) k = (if list_all is_number vals then None else Some vals)"
    using de_encode_cat_map [OF assms(2) dg, of k] mo by (simp add: empty_encoding_def)
  have ne: "\<not> list_all is_number vals \<Longrightarrow> vals \<noteq> []" by auto
  have ch: "\<forall>cs. spec = Choices cs \<longrightarrow> vals = cs" using assms(6) by auto
  have rd: "\<bar>of_int (round_half_even r) - r\<bar> < 1 / 2 \<or>
            \<bar>of_int (round_half_even r) - r\<bar> = 1 / 2 \<and> even (round_half_even r)" for r
    using round_half_even_nearest [of r] by blast
  show ?thesis
  proof (cases "list_all is_number vals")
    case True
    have "\<exists>j. (\<bar>of_int j - r\<bar> < 1 / 2 \<or> \<bar>of_int j - r\<bar> = 1 / 2 \<and> even j) \<and>
              decode_value (cat_map enc) (Fin r) k (int_flags enc ! i) = Inr (PInt j)"
      if "list_all is_int vals" for r
      using that True nth cm rd [of r]
      by (intro exI [of _ "round_half_even r"])
         (simp add: decode_value_numeric py_round_def ebind_def)
    with True nth cm ch show ?thesis by (simp add: decode_value_numeric)
  next
    case False
    with cm have c: "map_of (cat_map enc) k = Some vals" by simp
    have "\<exists>j. (\<bar>of_int j - r\<bar> < 1 / 2 \<or> \<bar>of_int j - r\<bar> = 1 / 2 \<and> even j) \<and>
              decode_value (cat_map enc) (Fin r) k (int_flags enc ! i) =
                Inr (vals ! nat (max 0 (min j (int (length vals) - 1))))" for r
      using decode_value_categorical [OF c ne [OF False], of r] rd [of r] by blast
    with decode_value_member [OF c ne [OF False]] nth ch False show ?thesis by simp
  qed
qed

theorem de_encoding_of_parameters_witness:
  "param_grid [(''mode'', Choices [PStr ''fast'', PStr ''slow'']), (''window'', IntRange 5 7 None)]
     = Inr [(''mode'', [PStr ''fast'', PStr ''slow'']), (''window'', [PInt 5, PInt 6, PInt 7])] \<and>
   de_encode [(''mode'', [PStr ''fast'', PStr ''slow'']), (''window'', [PInt 5, PInt 6, PInt 7])]
       empty_encoding
     = Inr \<lparr> keys = [''mode'', ''window''], bounds = [(PInt 0, PInt 1), (PInt 5, PInt 7)],
             int_flags = [True, True], cat_map = [(''mode'', [PStr ''fast'', PStr ''slow''])] \<rparr> \<and>
   distinct (map fst [(''mode'', Choices [PStr ''fast'', PStr ''slow'']), (''window'', IntRange 5 7 None)]) \<and>
   (\<forall>r. \<exists>v. decode_value [(''mode'', [PStr ''fast'', PStr ''slow''])] (Fin r) ''mode'' True = Inr v \<and>
             v \<in> set [PStr ''fast'', PStr ''slow'']) \<and>
   py_min [PInt 5, PInt 6, PInt 7] = Inr (PInt 5) \<and> py_max [PInt 5, PInt 6, PInt 7] = Inr (PInt 7) \<and>
   decode_value [(''mode'', [PStr ''fast'', PStr ''slow''])] (Fin (13 / 2)) ''window'' True = Inr (PInt 6) \<and>
   decode_value [(''mode'', [PStr ''fast'', PStr ''slow''])] (Fin (3 / 5)) ''mode'' True
     = Inr (PStr ''slow'')"
proof -
  let ?cfg = "[(''mode'', Choices [PStr ''fast'', PStr ''slow'']), (''window'', IntRange 5 7 None)]"
  let ?g = "[(''mode'', [PStr ''fast'', PStr ''slow'']), (''window'', [PInt 5, PInt 6, PInt 7])]"
  let ?enc = "\<lparr> keys = [''mode'', ''window''], bounds = [(PInt 0, PInt 1), (PInt 5, PInt 7)],
             int_flags = [True, True], cat_map = [(''mode'', [PStr ''fast'', PStr ''slow''])] \<rparr>"
  have r: "py_range 5 8 1 = Inr [5, 6, 7]"
    by (simp add: py_range_def Let_def numeral_3_eq_3)
  have g: "param_grid ?cfg = Inr ?g"
    by (simp add: ebind_def r)
  have e: "de_encode ?g empty_encoding = Inr ?enc"
    by (simp add: empty_encoding_def ebind_def py_min_def py_max_def fgt_def)
  have d: "distinct (map fst ?cfg)" by simp
  have v0: "grid_values (Choices [PStr ''fast'', PStr ''slow'']) = Inr [PStr ''fast'', PStr ''slow'']"
    by simp
  have v1: "grid_values (IntRange 5 7 None) = Inr [PInt 5, PInt 6, PInt 7]"
    by (simp add: ebind_def r)
  have i0: "0 < length ?cfg" and i1: "1 < length ?cfg" by simp_all
  have c0: "?cfg ! 0 = (''mode'', Choices [PStr ''fast'', PStr ''slow''])" by simp
  have c1: "?cfg ! 1 = (''window'', IntRange 5 7 None)" by simp
  have w: "ebind (py_round (Fin (13 / 2))) (\<lambda>n. Inr (PInt n)) = Inr (PInt 6)"
    by (simp add: py_round_def round_half_even_def ebind_def)
  have t0: "\<forall>r. \<exists>v. decode_value [(''mode'', [PStr ''fast'', PStr ''slow''])] (Fin r) ''mode'' True = Inr v \<and>
             v \<in> set [PStr ''fast'', PStr ''slow'']"
    using de_encoding_of_parameters [OF g e d i0 c0 v0] by simp
  have t1: "py_min [PInt 5, PInt 6, PInt 7] = Inr (PInt 5) \<and>
      py_max [PInt 5, PInt 6, PInt 7] = Inr (PInt 7) \<and>
      decode_value [(''mode'', [PStr ''fast'', PStr ''slow''])] (Fin (13 / 2)) ''window'' True
        = Inr (PInt 6)"
    using de_encoding_of_parameters [OF g e d i1 c1 v1] w by simp
  have t2: "decode_value [(''mode'', [PStr ''fast'', PStr ''slow''])] (Fin (3 / 5)) ''mode'' True
      = Inr (PStr ''slow'')"
  proof -
    from de_encoding_of_parameters [OF g e d i0 c0 v0]
    have "\<forall>r. \<exists>j. (\<bar>of_int j - r\<bar> < 1 / 2 \<or> \<bar>of_int j - r\<bar> = 1 / 2 \<and> even j) \<and>
              decode_value [(''mode'', [PStr ''fast'', PStr ''slow''])] (Fin r) ''mode'' True =
                Inr ([PStr ''fast'', PStr ''slow''] ! nat (max 0 (min j 1)))"
      by simp
    then obtain j :: int where
      j: "\<bar>of_int j - (3 / 5 :: real)\<bar> < 1 / 2 \<or> \<bar>of_int j - (3 / 5 :: real)\<bar> = 1 / 2 \<and> even j" and
      dj: "decode_value [(''mode'', [PStr ''fast'', PStr ''slow''])] (Fin (3 / 5)) ''mode'' True =
             Inr ([PStr ''fast'', PStr ''slow''] ! nat (max 0 (min j 1)))"
      by blast
    from j have "j = 1" by linarith
    with dj show ?thesis by simp
  qed
  show ?thesis using g e d t0 t1 t2 by blast
qed

text \<open>
  Claim C7 as stated covers every choices list. The choices 1, 5, 10 are all numbers,
  so the parameter is encoded with the bounds (1, 10), not (0, 2), and the component 3
  decodes to 3, which is not one of the choices.
\<close>

theorem de_numeric_choices_counterexample:
  "param_grid [(''window'', Choices [PInt 1, PInt 5, PInt 10])]
     = Inr [(''window'', [PInt 1, PInt 5, PInt 10])] \<and>
   de_encode [(''window'', [PInt 1, PInt 5, PInt 10])] empty_encoding
     = Inr \<lparr> keys = [''window''], bounds = [(PInt 1, PInt 10)], int_flags = [True], cat_map = [] \<rparr> \<and>
   decode_value [] (Fin 3) ''window'' True = Inr (PInt 3) \<and>
   PInt 3 \<notin> set [PInt 1, PInt 5, PInt 10]"
  by (simp add: ebind_def empty_encoding_def py_min_def py_max_def fgt_def decode_value_def
      py_round_def round_half_even_def)

section \<open>The best parameters of a results table\<close>

lemma update_fresh: "k \<notin> fst ` set al \<Longrightarrow> AList.update k v al = al @ [(k, v)]"
  by (induction al) auto

lemma best_params_loop_result:
  assumes "distinct ks" and "\<forall>k\<in>set ks. k \<notin> fst ` set out0"
    and "\<forall>k\<in>set ks. map_of r k \<noteq> None"
  shows "best_params_loop r ks out0 =
         Inr (out0 @ map (\<lambda>k. (k, native_value (the (map_of r k)))) ks)"
  using assms
proof (induction ks arbitrary: out0)
  case Nil
  then show ?case by simp
next
  case (Cons k ks)
  from Cons.prems(3) obtain v where v: "map_of r k = Some v" by auto
  have fresh: "k \<notin> fst ` set out0" using Cons.prems(2) by simp
  let ?out1 = "out0 @ [(k, native_value v)]"
  have "\<forall>k'\<in>set ks. k' \<notin> fst ` set ?out1"
    using Cons.prems(1,2) by auto
  moreover have "distinct ks" "\<forall>k\<in>set ks. map_of r k \<noteq> None"
    using Cons.prems by auto
  ultimately have "best_params_loop r ks ?out1 =
      Inr (?out1 @ map (\<lambda>k. (k, native_value (the (map_of r k)))) ks)"
    using Cons.IH by blast
  then show ?case by (simp add: v update_fresh [OF fresh])
qed

lemma native_value_native: "\<not> has_item (native_value v)"
proof (cases v)
  case (PFloat f)
  then show ?thesis by (cases f) (simp_all add: native_value_def)
next
  case (NpFloat f)
  then show ?thesis by (cases f) (simp_all add: native_value_def)
qed (simp_all add: native_value_def)

lemma native_value_not_whole: "native_value v = PFloat (Fin x) \<Longrightarrow> x \<noteq> of_int \<lfloor>x\<rfloor>"
proof (cases v)
  case (PFloat f)
  then show "native_value v = PFloat (Fin x) \<Longrightarrow> ?thesis"
    by (cases f) (auto simp: native_value_def split: if_splits)
next
  case (NpFloat f)
  then show "native_value v = PFloat (Fin x) \<Longrightarrow> ?thesis"
    by (cases f) (auto simp: native_value_def split: if_splits)
qed (simp_all add: native_value_def)

lemma native_value_whole:
  "native_value (NpFloat (Fin (of_int n))) = PInt n"
  "native_value (PFloat (Fin (of_int n))) = PInt n"
  by (simp_all add: native_value_def)

text \<open>
  Claim C10. For a results table, a row index of the table and a grid with distinct
  names that are all columns of the table, \<open>best_params\<close> returns one value per
  parameter of the grid, in grid order: the cell of the row, with a numpy scalar
  unwrapped to its native value and a float that is integer-valued converted to int.
  No returned value is a numpy scalar or a whole float; a real parameter whose best
  value is a whole number is returned as an int.
\<close>

theorem best_params_native_values:
  assumes "iloc results idx = Inr r" and "distinct (map fst g)"
    and "\<forall>k\<in>set (map fst g). map_of r k \<noteq> None"
  shows "\<exists>out. best_params g results idx = Inr out \<and> map fst out = map fst g \<and>
           (\<forall>k v. k \<in> set (map fst g) \<and> map_of r k = Some v \<longrightarrow>
                  map_of out k = Some (native_value v)) \<and>
           (\<forall>k v. (k, v) \<in> set out \<longrightarrow>
                  \<not> has_item v \<and> (\<forall>x. v = PFloat (Fin x) \<longrightarrow> x \<noteq> of_int \<lfloor>x\<rfloor>)) \<and>
           (\<forall>k n. k \<in> set (map fst g) \<and>
                  (map_of r k = Some (NpFloat (Fin (of_int n))) \<or>
                   map_of r k = Some (PFloat (Fin (of_int n)))) \<longrightarrow>
                  map_of out k = Some (PInt n))"
proof -
  let ?f = "\<lambda>k. native_value (the (map_of r k))"
  let ?out = "map (\<lambda>k. (k, ?f k)) (map fst g)"
  have "best_params_loop r (map fst g) [] = Inr ([] @ ?out)"
    by (rule best_params_loop_result) (use assms in auto)
  then have bp: "best_params g results idx = Inr ?out"
    by (simp add: best_params_def assms(1) ebind_def)
  have keys: "map fst ?out = map fst g" by (simp add: comp_def)
  have mo: "map_of ?out k = Some (native_value v)"
    if "k \<in> set (map fst g)" "map_of r k = Some v" for k v
  proof -
    have "map_of ?out = (Some \<circ> ?f) |` set (map fst g)"
      by (rule map_of_map_restrict)
    then show ?thesis using that by (simp add: restrict_map_def)
  qed
  have ntv: "\<not> has_item v \<and> (\<forall>x. v = PFloat (Fin x) \<longrightarrow> x \<noteq> of_int \<lfloor>x\<rfloor>)"
    if "(k, v) \<in> set ?out" for k v
  proof -
    from that have "v = ?f k" by auto
    then show ?thesis
      using native_value_native [of "the (map_of r k)"]
        native_value_not_whole [of "the (map_of r k)"] by auto
  qed
  have whole: "map_of ?out k = Some (PInt n)"
    if "k \<in> set (map fst g)"
       "map_of r k = Some (NpFloat (Fin (of_int n))) \<or> map_of r k = Some (PFloat (Fin (of_int n)))"
    for k n
    using that mo [of k] native_value_whole [of n] by auto
  show ?thesis
    using bp keys mo ntv whole by blast
qed

theorem best_params_native_values_witness:
  "iloc [[(''Sharpe'', NpFloat (Fin (3 / 2))), (''window'', NpFloat (Fin 10)), (''scale'', NpFloat (Fin 2))]] 0
     = Inr [(''Sharpe'', NpFloat (Fin (3 / 2))), (''window'', NpFloat (Fin 10)), (''scale'', NpFloat (Fin 2))] \<and>
   distinct (map fst [(''window'', [PInt 5, PInt 10]), (''scale'', [NpFloat (Fin 1), NpFloat (Fin 2)])]) \<and>
   map_of [(''Sharpe'', NpFloat (Fin (3 / 2))), (''window'', NpFloat (Fin 10)), (''scale'', NpFloat (Fin 2))]
      ''window'' = Some (NpFloat (Fin 10)) \<and>
   map_of [(''Sharpe'', NpFloat (Fin (3 / 2))), (''window'', NpFloat (Fin 10)), (''scale'', NpFloat (Fin 2))]
      ''scale'' = Some (NpFloat (Fin 2)) \<and>
   (\<exists>out. best_params [(''window'', [PInt 5, PInt 10]), (''scale'', [NpFloat (Fin 1), NpFloat (Fin 2)])]
            [[(''Sharpe'', NpFloat (Fin (3 / 2))), (''window'', NpFloat (Fin 10)), (''scale'', NpFloat (Fin 2))]] 0
          = Inr out \<and>
        map fst out = [''window'', ''scale''] \<and> map_of out ''scale'' = Some (PInt 2))"
proof -
  let ?r = "[(''Sharpe'', NpFloat (Fin (3 / 2))), (''window'', NpFloat (Fin 10)), (''scale'', NpFloat (Fin 2))]"
  let ?g = "[(''window'', [PInt 5, PInt 10]), (''scale'', [NpFloat (Fin 1), NpFloat (Fin 2)])]"
  have a: "iloc [?r] 0 = Inr ?r" by (simp add: iloc_def)
  have b: "distinct (map fst ?g)" by simp
  have c: "\<forall>k\<in>set (map fst ?g). map_of ?r k \<noteq> None" by simp
  have s: "map_of ?r ''scale'' = Some (NpFloat (Fin (of_int 2)))" by simp
  from best_params_native_values [OF a b c] obtain out where
    o: "best_params ?g [?r] 0 = Inr out" "map fst out = map fst ?g"
       "\<forall>k n. k \<in> set (map fst ?g) \<and>
                  (map_of ?r k = Some (NpFloat (Fin (of_int n))) \<or>
                   map_of ?r k = Some (PFloat (Fin (of_int n)))) \<longrightarrow>
                  map_of out k = Some (PInt n)"
    by blast
  from o(3) s have "map_of out ''scale'' = Some (PInt 2)" by simp
  with o(1,2) a b c show ?thesis by auto
qed

end
